theory Spec2Isabelle
  imports
    Complex_Main
    "HOL-Library.List_Lexorder"
    "HOL-Library.Product_Lexorder"
    "HOL-Library.Sublist"
    "HOL-Library.Multiset"
    "HOL-Library.AList"
begin

section \<open>Strings, instants and the clock\<close>

text \<open>
  A Python \<^verbatim>\<open>str\<close> is a sequence of Unicode code points: \<^verbatim>\<open>len\<close> counts code points,
  slicing cuts between them, and \<^verbatim>\<open><\<close> compares two strings lexicographically by code
  point.  The program's literals are partly Chinese, so a string is a list of code points,
  each an integer from 0 to 0x10FFFF; the order on it is the lexicographic one of
  \<open>List_Lexorder\<close>.
\<close>

type_synonym pystr = "int list"

definition ascii :: "string \<Rightarrow> pystr" where
  "ascii s = map of_char s"

text \<open>The category literal \<^verbatim>\<open>"\<close>U+5176 U+4ED6\<^verbatim>\<open>"\<close> (``other'').\<close>

definition OTHER :: pystr where
  "OTHER = [0x5176, 0x4ED6]"

text \<open>The default title \<^verbatim>\<open>"\<close>U+65E0 U+6807 U+9898\<^verbatim>\<open>"\<close> (``untitled'') of \<^verbatim>\<open>fetch_feed\<close>.\<close>

definition NO_TITLE :: pystr where
  "NO_TITLE = [0x65E0, 0x6807, 0x9898]"

text \<open>
  An aware \<^verbatim>\<open>datetime\<close> is the instant it denotes: microseconds since
  1970-01-01T00:00:00 UTC, as an integer.  Two aware datetimes compare by instant.
\<close>

type_synonym instant = int

definition timedelta_days :: "int \<Rightarrow> int" where
  "timedelta_days n = n * 86400000000"

text \<open>\<^verbatim>\<open>datetime.min.replace(tzinfo=timezone.utc)\<close>: 0001-01-01T00:00:00 UTC.\<close>

definition datetime_min_utc :: instant where
  "datetime_min_utc = - 62135596800000000"

text \<open>
  \<^verbatim>\<open>datetime.isoformat()\<close> of a UTC datetime, which the program compares as a string:
  \<^verbatim>\<open>YYYY-MM-DDTHH:MM:SS+00:00\<close>, with \<^verbatim>\<open>.ffffff\<close> after the seconds when the microsecond
  field is not zero.  The date of a day number is the proleptic Gregorian one; the format is
  that of the library for the instants a \<^verbatim>\<open>datetime\<close> can hold, the years 1 to 9999.
\<close>

definition civil_from_days :: "int \<Rightarrow> int \<times> int \<times> int" where
  "civil_from_days days =
     (let z = days + 719468;
          era = z div 146097;
          doe = z - era * 146097;
          yoe = (doe - doe div 1460 + doe div 36524 - doe div 146096) div 365;
          doy = doe - (365 * yoe + yoe div 4 - yoe div 100);
          mp = (5 * doy + 2) div 153;
          d = doy - (153 * mp + 2) div 5 + 1;
          m = (if mp < 10 then mp + 3 else mp - 9);
          y = yoe + era * 400 + (if m \<le> 2 then 1 else 0)
      in (y, m, d))"

definition digit_char :: "int \<Rightarrow> int" where
  "digit_char n = 48 + n mod 10"

fun pad :: "nat \<Rightarrow> int \<Rightarrow> pystr" where
  "pad 0 n = []"
| "pad (Suc w) n = pad w (n div 10) @ [digit_char n]"

definition isoformat :: "instant \<Rightarrow> pystr" where
  "isoformat t =
     (let days = t div 86400000000;
          us = t mod 86400000000;
          secs = us div 1000000;
          micro = us mod 1000000
      in case civil_from_days days of (y, m, d) \<Rightarrow>
           pad 4 y @ ascii ''-'' @ pad 2 m @ ascii ''-'' @ pad 2 d @ ascii ''T''
           @ pad 2 (secs div 3600) @ ascii '':'' @ pad 2 (secs div 60 mod 60)
           @ ascii '':'' @ pad 2 (secs mod 60)
           @ (if micro = 0 then [] else ascii ''.'' @ pad 6 micro)
           @ ascii ''+00:00'')"

section \<open>Data model\<close>

record FeedSource =
  name :: pystr
  xml_url :: pystr
  html_url :: pystr

record Article =
  title :: pystr
  link :: pystr
  source :: pystr
  published :: "instant option"
  summary :: pystr
  author :: pystr
  tags :: "pystr list"
  full_content :: pystr
  ai_title :: pystr
  ai_summary :: pystr
  ai_detail :: pystr
  category :: pystr
  is_relevant :: bool

text \<open>The dataclass's defaults: what the constructor call of \<^verbatim>\<open>fetch_feed\<close> leaves unset.\<close>

definition new_Article ::
  "pystr \<Rightarrow> pystr \<Rightarrow> pystr \<Rightarrow> instant option \<Rightarrow> pystr \<Rightarrow> pystr \<Rightarrow> pystr list \<Rightarrow> pystr \<Rightarrow> Article"
where
  "new_Article t l s p sm au tg fc =
     \<lparr> title = t, link = l, source = s, published = p, summary = sm, author = au,
       tags = tg, full_content = fc, ai_title = [], ai_summary = [], ai_detail = [],
       category = [], is_relevant = True \<rparr>"

section \<open>Deduplication store\<close>

text \<open>
  One value of the persisted mapping: the object \<^verbatim>\<open>mark_as_sent\<close> writes.  Reading uses
  \<^verbatim>\<open>v.get("sent_at", "")\<close>, so the key may be missing from a stored object.
\<close>

record SentRecord =
  rec_title :: pystr
  rec_link :: pystr
  sent_at :: "pystr option"

text \<open>
  A \<^verbatim>\<open>dict\<close> keeps its keys in insertion order, each key once: an association list with
  distinct keys.  Assigning to a key replaces its value in place or appends the pair, which
  is \<^const>\<open>AList.update\<close>.
\<close>

type_synonym SentDb = "(pystr \<times> SentRecord) list"

text \<open>
  \<^verbatim>\<open>hashlib.md5(link.encode()).hexdigest()\<close> is a library function of the link; the digest is
  the parameter \<open>md5\<close>.
\<close>

definition article_id :: "(pystr \<Rightarrow> pystr) \<Rightarrow> Article \<Rightarrow> pystr" where
  "article_id md5 article = md5 (link article)"

text \<open>
  What \<^verbatim>\<open>SENT_DB_FILE\<close> holds when \<^verbatim>\<open>load_sent_db\<close> runs: no file, a file whose reading,
  decoding or filtering raises (any \<^verbatim>\<open>Exception\<close>), or the decoded mapping.
\<close>

datatype SentDbFile = FileMissing | FileUnreadable | FileData SentDb

definition sent_at_or_empty :: "SentRecord \<Rightarrow> pystr" where
  "sent_at_or_empty v = (case sent_at v of None \<Rightarrow> [] | Some s \<Rightarrow> s)"

definition load_sent_db :: "instant \<Rightarrow> SentDbFile \<Rightarrow> SentDb" where
  "load_sent_db now file =
     (case file of
        FileMissing \<Rightarrow> []
      | FileUnreadable \<Rightarrow> []
      | FileData data \<Rightarrow>
          (let cutoff = isoformat (now - timedelta_days 30)
           in filter (\<lambda>(k, v). sent_at_or_empty v > cutoff) data))"

definition filter_new_articles :: "(pystr \<Rightarrow> pystr) \<Rightarrow> Article list \<Rightarrow> SentDb \<Rightarrow> Article list" where
  "filter_new_articles md5 articles sent_db =
     filter (\<lambda>a. article_id md5 a \<notin> fst ` set sent_db) articles"

text \<open>
  \<^verbatim>\<open>mark_as_sent\<close> reads the clock once for each article; \<open>clock n\<close> is the \<open>n\<close>-th reading.
\<close>

fun mark_as_sent :: "(pystr \<Rightarrow> pystr) \<Rightarrow> (nat \<Rightarrow> instant) \<Rightarrow> nat \<Rightarrow> Article list \<Rightarrow> SentDb \<Rightarrow> SentDb" where
  "mark_as_sent md5 clock n [] sent_db = sent_db"
| "mark_as_sent md5 clock n (a # rest) sent_db =
     mark_as_sent md5 clock (Suc n) rest
       (AList.update (article_id md5 a)
          \<lparr> rec_title = title a, rec_link = link a, sent_at = Some (isoformat (clock n)) \<rparr>
          sent_db)"

section \<open>External collaborators\<close>

text \<open>
  A library call made inside a \<^verbatim>\<open>try\<close>: it returns a value, or raises an exception that
  the enclosing handler names, or raises one that the handler lets through.
\<close>

datatype 'a attempt = Returns 'a | Caught | Escapes

text \<open>
  One entry of \<^verbatim>\<open>feedparser\<close>'s result, with the keys the program reads; a key that is
  absent is \<open>None\<close>.  \<open>e_content\<close> lists the \<^verbatim>\<open>value\<close> of each element of \<^verbatim>\<open>content\<close>
  and \<open>e_tags\<close> the \<^verbatim>\<open>term\<close> of each tag.  A \<^verbatim>\<open>struct_time\<close> is a tuple of integers.
\<close>

type_synonym struct_time = "int list"

record FeedEntry =
  e_title :: "pystr option"
  e_link :: "pystr option"
  e_author :: "pystr option"
  e_content :: "pystr option list"
  e_summary :: "pystr option"
  e_description :: "pystr option"
  e_tags :: "pystr option list"
  e_published :: "pystr option"
  e_updated :: "pystr option"
  e_created :: "pystr option"
  e_published_parsed :: "struct_time option"
  e_updated_parsed :: "struct_time option"
  e_created_parsed :: "struct_time option"

text \<open>
  What \<^verbatim>\<open>client.get\<close> and \<^verbatim>\<open>raise_for_status\<close> give for a feed URL, in the order of the
  handlers of \<^verbatim>\<open>fetch_feed\<close>; \<open>FeedEntries\<close> carries \<^verbatim>\<open>feedparser.parse(resp.text).entries\<close>.
\<close>

datatype FeedResponse =
  TimeoutException | HTTPStatusError nat | OtherException | FeedEntries "FeedEntry list"

text \<open>
  The classifier's reply to one request, by the branch of \<^verbatim>\<open>summarize_with_llm\<close> it takes:
  the call (or reading its text) raises; the text holds no \<^verbatim>\<open>{...}\<close>; \<^verbatim>\<open>json.loads\<close> raises
  on the match; or the decoded object, a field being \<open>None\<close> when its key is absent.
\<close>

record LlmData =
  d_category :: "pystr option"
  d_is_relevant :: "bool option"
  d_title :: "pystr option"
  d_summary :: "pystr option"

datatype LlmReply = CallRaises | NoJsonMatch | JsonLoadsRaises | JsonObject LlmData

text \<open>The outcome of the webhook \<^verbatim>\<open>POST\<close> in \<^verbatim>\<open>send_to_wecom\<close>.\<close>

datatype Delivery = Accepted | Rejected | PostRaises

text \<open>
  Everything outside the program that one pass consults, each answer taken as a function of
  the request.  \<open>dateutil_parse\<close> gives the instant of \<^verbatim>\<open>date_parser.parse(val)\<close>, a naive
  result read as UTC; \<open>mktime_utc\<close> the instant of
  \<^verbatim>\<open>datetime.fromtimestamp(mktime(val), tz=timezone.utc)\<close>.  \<open>page_get\<close> and \<open>llm_detail\<close>
  are \<open>None\<close> when the call raises.  \<open>clean_html\<close> and \<open>extract_text_from_html\<close> are the
  program's own, built on the regular-expression, entity and HTML-parsing libraries; the
  second is \<open>None\<close> when it raises.  \<open>timestamp\<close> is the value of the float that
  \<^verbatim>\<open>datetime.timestamp()\<close> returns for an instant.
\<close>

record Env =
  md5_hexdigest :: "pystr \<Rightarrow> pystr"
  feed_get :: "pystr \<Rightarrow> FeedResponse"
  dateutil_parse :: "pystr \<Rightarrow> instant attempt"
  mktime_utc :: "struct_time \<Rightarrow> instant attempt"
  clean_html :: "pystr \<Rightarrow> pystr"
  page_get :: "pystr \<Rightarrow> pystr option"
  extract_text_from_html :: "pystr \<Rightarrow> pystr option"
  llm_summarize :: "pystr \<Rightarrow> LlmReply"
  llm_detail :: "pystr \<Rightarrow> pystr option"
  wecom_post :: "pystr \<Rightarrow> Delivery"
  timestamp :: "instant \<Rightarrow> real"

section \<open>Source fetcher\<close>

subsection \<open>Entry dates\<close>

text \<open>
  One \<^verbatim>\<open>for key in (...)\<close> loop of \<^verbatim>\<open>parse_date\<close>: the first truthy value whose conversion
  returns decides; a conversion that raises what the \<^verbatim>\<open>except\<close> names moves on to the next
  key; any other exception leaves \<^verbatim>\<open>parse_date\<close>.
\<close>

fun try_keys :: "('v \<Rightarrow> bool) \<Rightarrow> ('v \<Rightarrow> instant attempt) \<Rightarrow> 'v option list \<Rightarrow> instant option attempt" where
  "try_keys truthy conv [] = Returns None"
| "try_keys truthy conv (None # rest) = try_keys truthy conv rest"
| "try_keys truthy conv (Some val # rest) =
     (if truthy val then
        (case conv val of
           Returns dt \<Rightarrow> Returns (Some dt)
         | Caught \<Rightarrow> try_keys truthy conv rest
         | Escapes \<Rightarrow> Escapes)
      else try_keys truthy conv rest)"

definition parse_date :: "Env \<Rightarrow> FeedEntry \<Rightarrow> instant option attempt" where
  "parse_date env entry =
     (case try_keys (\<lambda>val. val \<noteq> []) (dateutil_parse env)
             [e_published entry, e_updated entry, e_created entry] of
        Returns None \<Rightarrow>
          try_keys (\<lambda>val. val \<noteq> []) (mktime_utc env)
            [e_published_parsed entry, e_updated_parsed entry, e_created_parsed entry]
      | r \<Rightarrow> r)"

subsection \<open>One feed\<close>

definition MAX_ARTICLES_NO_DATE :: nat where
  "MAX_ARTICLES_NO_DATE = 3"

definition py_or :: "pystr \<Rightarrow> pystr \<Rightarrow> pystr" where
  "py_or a b = (if a \<noteq> [] then a else b)"

definition get_or :: "pystr option \<Rightarrow> pystr \<Rightarrow> pystr" where
  "get_or field dflt = (case field of None \<Rightarrow> dflt | Some v \<Rightarrow> v)"

definition content_raw :: "FeedEntry \<Rightarrow> pystr" where
  "content_raw entry =
     (let raw = (case e_content entry of [] \<Rightarrow> [] | c # _ \<Rightarrow> get_or c [])
      in if raw = []
         then py_or (py_or (get_or (e_summary entry) []) (get_or (e_description entry) [])) []
         else raw)"

definition entry_tags :: "FeedEntry \<Rightarrow> pystr list" where
  "entry_tags entry = map (\<lambda>t. get_or t []) (filter (\<lambda>t. get_or t [] \<noteq> []) (e_tags entry))"

definition make_article :: "Env \<Rightarrow> FeedSource \<Rightarrow> FeedEntry \<Rightarrow> instant option \<Rightarrow> Article" where
  "make_article env src entry pub_date =
     (let summary = clean_html env (content_raw entry)
      in new_Article
           (get_or (e_title entry) NO_TITLE)
           (get_or (e_link entry) (html_url src))
           (name src)
           pub_date
           (if summary \<noteq> [] then take 500 summary else [])
           (get_or (e_author entry) [])
           (take 5 (entry_tags entry))
           summary)"

text \<open>\<^verbatim>\<open>any(parse_date(e) is not None for e in feed.entries)\<close>, which stops at the first hit.\<close>

fun any_date :: "Env \<Rightarrow> FeedEntry list \<Rightarrow> bool attempt" where
  "any_date env [] = Returns False"
| "any_date env (e # es) =
     (case parse_date env e of
        Returns None \<Rightarrow> any_date env es
      | Returns (Some dt) \<Rightarrow> Returns True
      | Caught \<Rightarrow> Escapes
      | Escapes \<Rightarrow> Escapes)"

text \<open>
  The \<^verbatim>\<open>for entry in feed.entries\<close> loop, with its counter \<open>collected\<close> and the list
  \<open>articles\<close> built so far.  An exception leaves the loop for the handlers of
  \<^verbatim>\<open>fetch_feed\<close>, which log it; the function then returns what \<open>articles\<close> holds.
\<close>

fun collect_entries ::
  "Env \<Rightarrow> FeedSource \<Rightarrow> instant \<Rightarrow> bool \<Rightarrow> nat \<Rightarrow> FeedEntry list \<Rightarrow> Article list \<Rightarrow> Article list"
where
  "collect_entries env src since has_any_date collected [] articles = articles"
| "collect_entries env src since has_any_date collected (entry # rest) articles =
     (case parse_date env entry of
        Returns (Some dt) \<Rightarrow>
          (if dt < since
           then collect_entries env src since has_any_date collected rest articles
           else collect_entries env src since has_any_date collected rest
                  (articles @ [make_article env src entry (Some dt)]))
      | Returns None \<Rightarrow>
          (if has_any_date
           then collect_entries env src since has_any_date collected rest articles
           else if collected + 1 > MAX_ARTICLES_NO_DATE
           then collect_entries env src since has_any_date (collected + 1) rest articles
           else collect_entries env src since has_any_date (collected + 1) rest
                  (articles @ [make_article env src entry None]))
      | Caught \<Rightarrow> articles
      | Escapes \<Rightarrow> articles)"

definition fetch_feed :: "Env \<Rightarrow> FeedSource \<Rightarrow> instant \<Rightarrow> Article list" where
  "fetch_feed env src since =
     (case feed_get env (xml_url src) of
        FeedEntries entries \<Rightarrow>
          (case any_date env entries of
             Returns has_any_date \<Rightarrow> collect_entries env src since has_any_date 0 entries []
           | Caught \<Rightarrow> []
           | Escapes \<Rightarrow> [])
      | TimeoutException \<Rightarrow> []
      | HTTPStatusError code \<Rightarrow> []
      | OtherException \<Rightarrow> [])"

subsection \<open>All feeds\<close>

text \<open>The sort key \<^verbatim>\<open>a.published or datetime.min.replace(tzinfo=timezone.utc)\<close>.\<close>

definition published_key :: "Article \<Rightarrow> instant" where
  "published_key a = (case published a of None \<Rightarrow> datetime_min_utc | Some t \<Rightarrow> t)"

text \<open>
  \<^verbatim>\<open>list.sort(key=..., reverse=True)\<close> is stable: it sorts the reversed list ascending,
  stably, and reverses the result, so items with equal keys keep their order.
\<close>

definition sort_reverse :: "('a \<Rightarrow> 'k::linorder) \<Rightarrow> 'a list \<Rightarrow> 'a list" where
  "sort_reverse key xs = rev (sort_key key (rev xs))"

text \<open>\<^verbatim>\<open>asyncio.gather\<close> returns the feeds' results in the order of the feeds.\<close>

definition fetch_all_feeds :: "Env \<Rightarrow> FeedSource list \<Rightarrow> instant \<Rightarrow> Article list" where
  "fetch_all_feeds env feeds since =
     sort_reverse published_key (concat (map (\<lambda>feed. fetch_feed env feed since) feeds))"

section \<open>Content enricher\<close>

definition fetch_page_content :: "Env \<Rightarrow> Article \<Rightarrow> pystr" where
  "fetch_page_content env article =
     (case page_get env (link article) of
        None \<Rightarrow> []
      | Some html \<Rightarrow>
          (case extract_text_from_html env html of
             None \<Rightarrow> []
           | Some text \<Rightarrow> if length text > 200 then text else []))"

text \<open>The worker \<^verbatim>\<open>bounded_fetch\<close> of the enricher: it writes to its own article only.\<close>

definition bounded_fetch :: "Env \<Rightarrow> Article \<Rightarrow> Article" where
  "bounded_fetch env article =
     (let content = fetch_page_content env article
      in if content \<noteq> [] then article\<lparr>full_content := content\<rparr> else article)"

definition enrich_articles_with_full_content :: "Env \<Rightarrow> Article list \<Rightarrow> Article list" where
  "enrich_articles_with_full_content env articles = map (bounded_fetch env) articles"

section \<open>Batch transformer\<close>

definition MAX_CONTENT_LEN :: nat where
  "MAX_CONTENT_LEN = 2000"

definition LLM_BATCH_SIZE :: nat where
  "LLM_BATCH_SIZE = 5"

text \<open>The request texts, \<^verbatim>\<open>f"\<close>U+539F U+6807 U+9898\<^verbatim>\<open>: {title}\n\<close>U+6765 U+6E90\<^verbatim>\<open>: {source}\n\n{content}"\<close>
  and the same with the prefix U+6807 U+9898 for the detail call.\<close>

definition summarize_msg :: "Article \<Rightarrow> pystr \<Rightarrow> pystr" where
  "summarize_msg article content_trimmed =
     [0x539F, 0x6807, 0x9898] @ ascii '': '' @ title article @ [10]
     @ [0x6765, 0x6E90] @ ascii '': '' @ source article @ [10, 10] @ content_trimmed"

definition detail_msg :: "Article \<Rightarrow> pystr \<Rightarrow> pystr" where
  "detail_msg article content_trimmed =
     [0x6807, 0x9898] @ ascii '': '' @ py_or (ai_title article) (title article) @ [10]
     @ [0x6765, 0x6E90] @ ascii '': '' @ source article @ [10, 10] @ content_trimmed"

record Summary =
  s_title :: pystr
  s_summary :: pystr
  s_category :: pystr
  s_is_relevant :: bool

text \<open>The body of the \<^verbatim>\<open>for article in articles\<close> loop of \<^verbatim>\<open>summarize_with_llm\<close>.\<close>

definition summarize_one :: "Env \<Rightarrow> Article \<Rightarrow> Summary" where
  "summarize_one env article =
     (let content = py_or (py_or (full_content article) (summary article)) []
      in if content = []
         then \<lparr> s_title = title article, s_summary = [], s_category = OTHER,
                s_is_relevant = False \<rparr>
         else
           (case llm_summarize env (summarize_msg article (take MAX_CONTENT_LEN content)) of
              JsonObject data \<Rightarrow>
                (let is_relevant0 = (case d_is_relevant data of None \<Rightarrow> True | Some b \<Rightarrow> b);
                     category = get_or (d_category data) OTHER;
                     is_relevant = (if category = OTHER then False else is_relevant0)
                 in \<lparr> s_title =
                        (if is_relevant then get_or (d_title data) (title article)
                         else title article),
                      s_summary = (if is_relevant then get_or (d_summary data) [] else []),
                      s_category = category,
                      s_is_relevant = is_relevant \<rparr>)
            | NoJsonMatch \<Rightarrow>
                \<lparr> s_title = title article, s_summary = [], s_category = OTHER,
                  s_is_relevant = False \<rparr>
            | CallRaises \<Rightarrow>
                \<lparr> s_title = title article, s_summary = summary article, s_category = OTHER,
                  s_is_relevant = False \<rparr>
            | JsonLoadsRaises \<Rightarrow>
                \<lparr> s_title = title article, s_summary = summary article, s_category = OTHER,
                  s_is_relevant = False \<rparr>))"

fun summarize_loop :: "Env \<Rightarrow> Article list \<Rightarrow> Summary list \<Rightarrow> Summary list" where
  "summarize_loop env [] results = results"
| "summarize_loop env (article # rest) results =
     summarize_loop env rest (results @ [summarize_one env article])"

definition summarize_with_llm :: "Env \<Rightarrow> Article list \<Rightarrow> Summary list" where
  "summarize_with_llm env articles = summarize_loop env articles []"

definition enrich_detail_one :: "Env \<Rightarrow> Article \<Rightarrow> Article" where
  "enrich_detail_one env article =
     (let content = py_or (py_or (full_content article) (summary article)) []
      in if content = [] then article\<lparr>ai_detail := ai_summary article\<rparr>
         else
           (case llm_detail env (detail_msg article (take MAX_CONTENT_LEN content)) of
              Some text \<Rightarrow> article\<lparr>ai_detail := text\<rparr>
            | None \<Rightarrow> article\<lparr>ai_detail := ai_summary article\<rparr>))"

definition enrich_detail_with_llm :: "Env \<Rightarrow> Article list \<Rightarrow> Article list" where
  "enrich_detail_with_llm env articles = map (enrich_detail_one env) articles"

text \<open>The four assignments \<^verbatim>\<open>articles[idx].ai_title = result["title"]\<close> and so on.\<close>

definition store_result :: "Summary \<Rightarrow> Article \<Rightarrow> Article" where
  "store_result result article =
     article\<lparr> ai_title := s_title result, ai_summary := s_summary result,
              category := s_category result, is_relevant := s_is_relevant result \<rparr>"

text \<open>
  \<^verbatim>\<open>for j, result in enumerate(results)\<close> with \<open>idx = i + j\<close>.  There is one result for each
  article of the batch, so \<open>idx\<close> stays inside the list.
\<close>

fun store_results :: "nat \<Rightarrow> Summary list \<Rightarrow> Article list \<Rightarrow> Article list" where
  "store_results idx [] articles = articles"
| "store_results idx (result # rest) articles =
     store_results (idx + 1) rest (articles[idx := store_result result (articles ! idx)])"

lemma length_store_results: "length (store_results idx results articles) = length articles"
  by (induction results arbitrary: idx articles) simp_all

text \<open>\<^verbatim>\<open>for i in range(0, total, LLM_BATCH_SIZE)\<close>, the batch being \<^verbatim>\<open>articles[i:i + LLM_BATCH_SIZE]\<close>.\<close>

function batch_loop :: "Env \<Rightarrow> nat \<Rightarrow> Article list \<Rightarrow> Article list" where
  "batch_loop env i articles =
     (if i < length articles
      then batch_loop env (i + LLM_BATCH_SIZE)
             (store_results i
                (summarize_with_llm env (take LLM_BATCH_SIZE (drop i articles))) articles)
      else articles)"
  by pat_completeness auto
termination batch_loop
  by (relation "measure (\<lambda>(env, i, articles). length articles - i)")
     (auto simp: length_store_results LLM_BATCH_SIZE_def)

definition ai_summarize_articles :: "Env \<Rightarrow> Article list \<Rightarrow> bool \<Rightarrow> Article list" where
  "ai_summarize_articles env articles enable_filter =
     (if articles = [] then articles
      else
        (let articles = batch_loop env 0 articles;
             relevant_articles = (if enable_filter then filter is_relevant articles else articles)
         in if relevant_articles \<noteq> [] then enrich_detail_with_llm env relevant_articles
            else relevant_articles))"

section \<open>Notification\<close>

text \<open>The categories \<^verbatim>\<open>"AI"\<close>, U+79D1 U+6280 and U+5546 U+4E1A of the priority table.\<close>

definition priority :: "pystr \<Rightarrow> nat" where
  "priority c =
     (if c = ascii ''AI'' then 0
      else if c = [0x79D1, 0x6280] then 1
      else if c = [0x5546, 0x4E1A] then 2
      else 3)"

text \<open>
  The key of \<^verbatim>\<open>_select_top_articles\<close>: the priority of the category, then the negated float
  \<^verbatim>\<open>published.timestamp()\<close>, or 0 without a date.  Tuples compare lexicographically, and
  \<^verbatim>\<open>sorted\<close> is stable, so two articles whose timestamps are the same float keep their order.
\<close>

definition top_key :: "Env \<Rightarrow> Article \<Rightarrow> nat \<times> real" where
  "top_key env a =
     (priority (category a), - (case published a of None \<Rightarrow> 0 | Some t \<Rightarrow> timestamp env t))"

definition select_top_articles :: "Env \<Rightarrow> Article list \<Rightarrow> nat \<Rightarrow> Article list" where
  "select_top_articles env articles n = take n (sort_key (top_key env) articles)"

text \<open>
  What one call of \<^verbatim>\<open>send_to_wecom\<close> did: nothing for an empty list; otherwise the articles
  the message was built from and how the webhook answered.  A rejected or failed delivery
  is logged inside and never raised.  \<open>render\<close> is \<^verbatim>\<open>_build_wecom_markdown\<close>.
\<close>

datatype Push = NotPushed | Pushed "Article list" Delivery

definition send_to_wecom ::
  "Env \<Rightarrow> (Article list \<Rightarrow> pystr \<Rightarrow> nat \<Rightarrow> pystr) \<Rightarrow> Article list \<Rightarrow> pystr \<Rightarrow> Push" where
  "send_to_wecom env render articles page_url =
     (if articles = [] then NotPushed
      else
        (let total_count = length articles;
             top_articles = select_top_articles env articles 5;
             msg = render top_articles page_url total_count
         in Pushed top_articles (wecom_post env msg)))"

section \<open>Pipeline orchestrator\<close>

text \<open>
  What one pass leaves behind: the list it returns, the mapping \<^verbatim>\<open>save_sent_db\<close> wrote (if it
  was called), and the push.  \<open>feeds\<close> is what \<^verbatim>\<open>parse_opml\<close> read; \<open>now\<close> the clock when
  the pass starts, \<open>clock\<close> its readings in \<^verbatim>\<open>mark_as_sent\<close>; \<open>page_url\<close> is what
  \<^verbatim>\<open>_get_page_url\<close> gives.  Rendering and writing the HTML page, between the transformer and
  the push, write files that nothing here reads; the pass is taken as it runs when they and
  the reading of the feed list do not raise.
\<close>

record Pass =
  returned :: "Article list"
  saved_db :: "SentDb option"
  push :: Push

definition fetch_and_process ::
  "Env \<Rightarrow> (Article list \<Rightarrow> pystr \<Rightarrow> nat \<Rightarrow> pystr) \<Rightarrow> FeedSource list \<Rightarrow> instant \<Rightarrow> (nat \<Rightarrow> instant)
   \<Rightarrow> pystr \<Rightarrow> int \<Rightarrow> instant option \<Rightarrow> pystr option \<Rightarrow> SentDb option \<Rightarrow> bool \<Rightarrow> Pass"
where
  "fetch_and_process env render feeds now clock page_url days since webhook_url sent_db enable_filter =
     (let since' = (case since of None \<Rightarrow> now - timedelta_days days | Some s \<Rightarrow> s);
          nothing = \<lparr> returned = [], saved_db = None, push = NotPushed \<rparr>;
          fetched = fetch_all_feeds env feeds since'
      in if fetched = [] then nothing
         else
           (let fresh = (case sent_db of
                           None \<Rightarrow> fetched
                         | Some db \<Rightarrow> filter_new_articles (md5_hexdigest env) fetched db)
            in if sent_db \<noteq> None \<and> fresh = [] then nothing
               else
                 (let enriched = enrich_articles_with_full_content env fresh;
                      articles = ai_summarize_articles env enriched enable_filter
                  in if articles = [] then nothing
                     else
                       \<lparr> returned = articles,
                         saved_db =
                           (case sent_db of
                              None \<Rightarrow> None
                            | Some db \<Rightarrow> Some (mark_as_sent (md5_hexdigest env) clock 0 articles db)),
                         push =
                           (case webhook_url of
                              None \<Rightarrow> NotPushed
                            | Some url \<Rightarrow>
                                if url \<noteq> [] then send_to_wecom env render articles page_url
                                else NotPushed) \<rparr>)))"

section \<open>Poll loop\<close>

text \<open>
  How the \<^verbatim>\<open>try\<close> body of one round ends: the pass returns its articles; it raises an
  \<^verbatim>\<open>Exception\<close>, which the handler logs; or a \<^verbatim>\<open>BaseException\<close> outside \<^verbatim>\<open>Exception\<close>
  (an interrupt or a cancellation) passes the handler and ends \<^verbatim>\<open>run_watch\<close>.
\<close>

datatype Round = PassReturns "Article list" | PassRaises | Interrupt

datatype Event =
  RoundStart nat | LogPushed nat | LogNothingNew | LogError | Sleep nat | Stopped

text \<open>
  The \<^verbatim>\<open>while True\<close> loop never returns by itself, so the model runs it for \<open>fuel\<close> rounds and
  gives the events of those rounds in order.  \<open>rounds n\<close> is how the pass of round \<open>n\<close> ends,
  and \<open>cancelled n\<close> says whether the task is cancelled during the sleep of round \<open>n\<close>, which
  ends \<^verbatim>\<open>run_watch\<close> as well.  The sleep is \<^verbatim>\<open>interval * 60\<close> seconds.  The start-up message
  sent before the loop, whose failure is ignored, is left out.
\<close>

fun run_watch :: "(nat \<Rightarrow> Round) \<Rightarrow> (nat \<Rightarrow> bool) \<Rightarrow> nat \<Rightarrow> nat \<Rightarrow> nat \<Rightarrow> Event list" where
  "run_watch rounds cancelled interval 0 round_count = []"
| "run_watch rounds cancelled interval (Suc fuel) round_count =
     RoundStart (round_count + 1) #
       (case rounds (round_count + 1) of
          PassReturns articles \<Rightarrow>
            (if articles \<noteq> [] then LogPushed (length articles) else LogNothingNew)
              # Sleep (interval * 60)
              # (if cancelled (round_count + 1) then [Stopped]
                 else run_watch rounds cancelled interval fuel (round_count + 1))
        | PassRaises \<Rightarrow>
            LogError
              # Sleep (interval * 60)
              # (if cancelled (round_count + 1) then [Stopped]
                 else run_watch rounds cancelled interval fuel (round_count + 1))
        | Interrupt \<Rightarrow> [Stopped])"

section \<open>Vocabulary of the properties\<close>




text \<open>The text extracted from an article's page, \<open>None\<close> when fetching or parsing raises.\<close>

definition extracted_text :: "Env \<Rightarrow> Article \<Rightarrow> pystr option" where
  "extracted_text env article =
     (case page_get env (link article) of
        None \<Rightarrow> None
      | Some html \<Rightarrow> extract_text_from_html env html)"

text \<open>One article after classification, and the reply its request got (\<open>None\<close>: no request
  is made for an article without content).\<close>

definition classify :: "Env \<Rightarrow> Article \<Rightarrow> Article" where
  "classify env article = store_result (summarize_one env article) article"

definition classifier_reply :: "Env \<Rightarrow> Article \<Rightarrow> LlmReply option" where
  "classifier_reply env article =
     (let content = py_or (py_or (full_content article) (summary article)) []
      in if content = [] then None
         else Some (llm_summarize env (summarize_msg article (take MAX_CONTENT_LEN content))))"

text \<open>The three events of a round that is not interrupted.\<close>

definition round_log :: "Round \<Rightarrow> Event" where
  "round_log r =
     (case r of
        PassReturns articles \<Rightarrow>
          if articles \<noteq> [] then LogPushed (length articles) else LogNothingNew
      | PassRaises \<Rightarrow> LogError
      | Interrupt \<Rightarrow> Stopped)"

definition round_events :: "(nat \<Rightarrow> Round) \<Rightarrow> nat \<Rightarrow> nat \<Rightarrow> Event list" where
  "round_events rounds interval n = [RoundStart n, round_log (rounds n), Sleep (interval * 60)]"

section \<open>Example data\<close>

text \<open>
  A small world for running the pipeline on concrete inputs: seven feeds, a date parser that
  knows two dates and raises \<^verbatim>\<open>OverflowError\<close>, which \<^verbatim>\<open>parse_date\<close> does not catch, on the
  string \<^verbatim>\<open>9999999999\<close>, pages of 201 and 200 characters, a classifier that fails on the content
  \<^verbatim>\<open>outage\<close>, files \<^verbatim>\<open>garden\<close> under the category ``other'' while calling it relevant, and
  files everything else under \<^verbatim>\<open>AI\<close>, and a webhook whose \<^verbatim>\<open>POST\<close> always raises.
\<close>

definition ex_entry :: "pystr \<Rightarrow> pystr option \<Rightarrow> FeedEntry" where
  "ex_entry t pub =
     \<lparr> e_title = Some t, e_link = Some (ascii ''https://blog.example/'' @ t), e_author = None,
       e_content = [], e_summary = Some (ascii ''About '' @ t), e_description = None,
       e_tags = [], e_published = pub, e_updated = None, e_created = None,
       e_published_parsed = None, e_updated_parsed = None, e_created_parsed = None \<rparr>"

definition ex_undated_entries :: "FeedEntry list" where
  "ex_undated_entries = map (\<lambda>i. ex_entry [48 + int i] None) [0..<10]"

definition ex_mixed_entries :: "FeedEntry list" where
  "ex_mixed_entries =
     [ex_entry (ascii ''new'') (Some (ascii ''2024-01-05'')),
      ex_entry (ascii ''undated'') None,
      ex_entry (ascii ''old'') (Some (ascii ''2024-01-03''))]"

definition ex_overflow_entries :: "FeedEntry list" where
  "ex_overflow_entries =
     [ex_entry (ascii ''x'') None,
      ex_entry (ascii ''y'') None,
      ex_entry (ascii ''z'') (Some (ascii ''9999999999''))]"

definition ex_feed_get :: "pystr \<Rightarrow> FeedResponse" where
  "ex_feed_get url =
     (if url = ascii ''undated'' then FeedEntries ex_undated_entries
      else if url = ascii ''mixed'' then FeedEntries ex_mixed_entries
      else if url = ascii ''overflow'' then FeedEntries ex_overflow_entries
      else if url = ascii ''jan3'' then
        FeedEntries [ex_entry (ascii ''a'') (Some (ascii ''2024-01-03''))]
      else if url = ascii ''nodate'' then FeedEntries [ex_entry (ascii ''b'') None]
      else if url = ascii ''jan5'' then
        FeedEntries [ex_entry (ascii ''c'') (Some (ascii ''2024-01-05''))]
      else if url = ascii ''six'' then
        FeedEntries (map (\<lambda>i. ex_entry [97 + int i] (Some (ascii ''2024-01-05''))) [0..<6])
      else OtherException)"

definition ex_dateutil_parse :: "pystr \<Rightarrow> instant attempt" where
  "ex_dateutil_parse val =
     (if val = ascii ''2024-01-03'' then Returns 1704240000000000
      else if val = ascii ''2024-01-05'' then Returns 1704412800000000
      else if val = ascii ''9999999999'' then Escapes
      else Caught)"

definition ex_page_get :: "pystr \<Rightarrow> pystr option" where
  "ex_page_get url =
     (if url = ascii ''long'' then Some (replicate 201 120)
      else if url = ascii ''short'' then Some (replicate 200 120)
      else None)"

definition ex_llm_summarize :: "pystr \<Rightarrow> LlmReply" where
  "ex_llm_summarize msg =
     (let tail = drop (length msg - 6) msg
      in if tail = ascii ''outage'' then CallRaises
         else if tail = ascii ''garden'' then
           JsonObject \<lparr> d_category = Some OTHER, d_is_relevant = Some True,
                        d_title = Some (ascii ''Garden''), d_summary = Some (ascii ''Plants'') \<rparr>
         else
           JsonObject \<lparr> d_category = Some (ascii ''AI''), d_is_relevant = Some True,
                        d_title = Some (ascii ''Model''), d_summary = Some (ascii ''Weights'') \<rparr>)"

definition ex_env :: Env where
  "ex_env =
     \<lparr> md5_hexdigest = (\<lambda>l. ascii ''md5:'' @ l),
       feed_get = ex_feed_get,
       dateutil_parse = ex_dateutil_parse,
       mktime_utc = (\<lambda>val. Caught),
       clean_html = (\<lambda>raw. raw),
       page_get = ex_page_get,
       extract_text_from_html = (\<lambda>html. Some html),
       llm_summarize = ex_llm_summarize,
       llm_detail = (\<lambda>msg. None),
       wecom_post = (\<lambda>msg. PostRaises),
       timestamp = (\<lambda>t. real_of_int t / 1000000) \<rparr>"

definition ex_source :: "pystr \<Rightarrow> FeedSource" where
  "ex_source url = \<lparr> name = ascii ''Blog'', xml_url = url, html_url = ascii ''https://blog.example'' \<rparr>"

definition ex_three_feeds :: "FeedSource list" where
  "ex_three_feeds = [ex_source (ascii ''jan3''), ex_source (ascii ''nodate''), ex_source (ascii ''jan5'')]"

definition ex_article :: "pystr \<Rightarrow> pystr \<Rightarrow> pystr \<Rightarrow> Article" where
  "ex_article l sm fc =
     new_Article (ascii ''Original'') l (ascii ''Blog'') None sm (ascii ''Ann'') [] fc"

definition ex_outage :: Article where
  "ex_outage = ex_article (ascii ''https://blog.example/1'') (ascii ''feed summary'') (ascii ''outage'')"

definition ex_garden :: Article where
  "ex_garden = ex_article (ascii ''https://blog.example/2'') (ascii ''beds'') (ascii ''garden'')"

definition ex_tensor :: Article where
  "ex_tensor = ex_article (ascii ''https://blog.example/3'') (ascii ''gpus'') (ascii ''tensor'')"

definition ex_clock :: "nat \<Rightarrow> instant" where
  "ex_clock n = 1704499200000000 + int n"

definition ex_render :: "Article list \<Rightarrow> pystr \<Rightarrow> nat \<Rightarrow> pystr" where
  "ex_render top_articles page_url total_count = concat (map title top_articles) @ page_url"

definition ex_pass :: Pass where
  "ex_pass =
     fetch_and_process ex_env ex_render [ex_source (ascii ''six'')] 1704499200000000 ex_clock
       (ascii ''https://pages.example/2024-01-06.html'') 1 None
       (Some (ascii ''https://hook.example'')) (Some []) True"

definition ex_saved :: SentDb where
  "ex_saved = mark_as_sent (md5_hexdigest ex_env) ex_clock 0 (returned ex_pass) []"

definition ex_rounds :: "nat \<Rightarrow> Round" where
  "ex_rounds n = (if n = 2 then PassRaises else PassReturns [])"

definition ex_cancelled :: "nat \<Rightarrow> bool" where
  "ex_cancelled n = False"

section \<open>Deduplication store: properties\<close>

lemma load_sent_db_FileData:
  "load_sent_db now (FileData data) =
     filter (\<lambda>(k, v). isoformat (now - timedelta_days 30) < sent_at_or_empty v) data"
  by (simp add: load_sent_db_def)

text \<open>
  C1, as stated, fails at the boundary.  A record stamped 2024-01-01T00:00:00+00:00 and loaded
  exactly 30 days later, at 2024-01-31T00:00:00 UTC, has a \<^verbatim>\<open>sent_at\<close> equal to the cutoff
  string; the test \<^verbatim>\<open>sent_at > cutoff\<close> is strict, so the record is dropped, not kept.
\<close>

theorem load_sent_db_boundary_counterexample:
  "isoformat (1706659200000000 - timedelta_days 30) = ascii ''2024-01-01T00:00:00+00:00''
   \<and> load_sent_db 1706659200000000
        (FileData [(ascii ''0a1b'',
           \<lparr> rec_title = ascii ''Post'', rec_link = ascii ''https://blog.example/post'',
             sent_at = Some (ascii ''2024-01-01T00:00:00+00:00'') \<rparr>)]) = []"
  by code_simp

text \<open>
  C1, amended.  For every persisted mapping, \<^verbatim>\<open>load_sent_db\<close> returns exactly the records
  whose \<^verbatim>\<open>sent_at\<close> string is strictly greater than the ISO string of the instant 30 days
  before the load, in the order of the file.  A record stamped exactly at that instant is
  dropped, and so is a record without \<^verbatim>\<open>sent_at\<close>.  A missing or unreadable file gives the
  empty mapping.
\<close>

theorem load_sent_db_prune:
  "((k, v) \<in> set (load_sent_db now (FileData data)) \<longleftrightarrow>
      (k, v) \<in> set data \<and> isoformat (now - timedelta_days 30) < sent_at_or_empty v)
   \<and> subseq (load_sent_db now (FileData data)) data
   \<and> (k, w\<lparr>sent_at := Some (isoformat (now - timedelta_days 30))\<rparr>)
        \<notin> set (load_sent_db now (FileData data))
   \<and> (k, w\<lparr>sent_at := None\<rparr>) \<notin> set (load_sent_db now (FileData data))
   \<and> load_sent_db now FileMissing = []
   \<and> load_sent_db now FileUnreadable = []"
  by (auto simp: load_sent_db_FileData sent_at_or_empty_def load_sent_db_def)

text \<open>
  C8.  \<^verbatim>\<open>filter_new_articles\<close> returns the items whose identity hash, the digest of the link,
  is not a key of the mapping; the result is a subsequence of the input, in input order; and
  filtering a second time against the same mapping changes nothing.
\<close>

theorem filter_new_articles_idempotent:
  "filter_new_articles md5 items db = filter (\<lambda>a. md5 (link a) \<notin> fst ` set db) items
   \<and> subseq (filter_new_articles md5 items db) items
   \<and> filter_new_articles md5 (filter_new_articles md5 items db) db
       = filter_new_articles md5 items db"
  by (simp add: filter_new_articles_def article_id_def)

section \<open>Source fetcher: properties\<close>


lemma any_date_True_ex:
  "any_date env entries = Returns True \<Longrightarrow>
   \<exists>e\<in>set entries. \<exists>dt. parse_date env e = Returns (Some dt)"
  by (induction entries) (auto split: attempt.splits option.splits)









lemma mset_sort_reverse: "mset (sort_reverse key xs) = mset xs"
  by (simp add: sort_reverse_def)

lemma sorted_wrt_sort_reverse:
  "sorted_wrt (\<lambda>a b. key a \<ge> key b) (sort_reverse key xs)"
proof -
  have "sorted (map key (sort_key key (rev xs)))" by simp
  then have "sorted_wrt (\<lambda>a b. key a \<le> key b) (sort_key key (rev xs))"
    by (simp add: sorted_map)
  then show ?thesis
    by (simp add: sort_reverse_def sorted_wrt_rev)
qed

lemma stable_sort_reverse:
  "filter (\<lambda>a. key a = k) (sort_reverse key xs) = filter (\<lambda>a. key a = k) xs"
proof -
  have "filter (\<lambda>a. key a = k) (sort_key key (rev xs)) = filter (\<lambda>a. key a = k) (rev xs)"
    by (rule sort_key_stable)
  then have "rev (filter (\<lambda>a. key a = k) (sort_key key (rev xs))) = filter (\<lambda>a. key a = k) xs"
    by (simp add: rev_filter)
  then show ?thesis
    by (simp add: sort_reverse_def rev_filter)
qed

lemma sort_reverse_three:
  assumes "key c > key a" "key a \<ge> key b"
  shows "sort_reverse key [a, b, c] = [c, a, b]"
  using assms by (auto simp: sort_reverse_def)

text \<open>
  C4.  The aggregate is a rearrangement of the concatenated per-feed lists, in descending
  order of the publish instant, an article without one counting as \<^verbatim>\<open>datetime.min\<close> in UTC,
  and articles with equal keys keeping their order.  So three articles dated 2024-01-03,
  undated and 2024-01-05 (any two instants \<open>t1 < t2\<close> not before \<^verbatim>\<open>datetime.min\<close>) come out
  as the later one, the earlier one, the undated one.
\<close>

theorem fetch_all_feeds_sorted:
  "mset (fetch_all_feeds env feeds since)
     = mset (concat (map (\<lambda>feed. fetch_feed env feed since) feeds))
   \<and> sorted_wrt (\<lambda>a b. published_key a \<ge> published_key b) (fetch_all_feeds env feeds since)
   \<and> filter (\<lambda>a. published_key a = k) (fetch_all_feeds env feeds since)
       = filter (\<lambda>a. published_key a = k) (concat (map (\<lambda>feed. fetch_feed env feed since) feeds))
   \<and> (concat (map (\<lambda>feed. fetch_feed env feed since) feeds) = [a, b, c]
        \<and> published a = Some t1 \<and> published b = None \<and> published c = Some t2
        \<and> datetime_min_utc \<le> t1 \<and> t1 < t2
      \<longrightarrow> fetch_all_feeds env feeds since = [c, a, b])"
proof (intro conjI impI)
  show "mset (fetch_all_feeds env feeds since)
     = mset (concat (map (\<lambda>feed. fetch_feed env feed since) feeds))"
    by (simp add: fetch_all_feeds_def mset_sort_reverse)
  show "sorted_wrt (\<lambda>a b. published_key a \<ge> published_key b) (fetch_all_feeds env feeds since)"
    unfolding fetch_all_feeds_def by (rule sorted_wrt_sort_reverse)
  show "filter (\<lambda>a. published_key a = k) (fetch_all_feeds env feeds since)
       = filter (\<lambda>a. published_key a = k) (concat (map (\<lambda>feed. fetch_feed env feed since) feeds))"
    unfolding fetch_all_feeds_def by (rule stable_sort_reverse)
next
  assume h: "concat (map (\<lambda>feed. fetch_feed env feed since) feeds) = [a, b, c]
        \<and> published a = Some t1 \<and> published b = None \<and> published c = Some t2
        \<and> datetime_min_utc \<le> t1 \<and> t1 < t2"
  then have "published_key c > published_key a" "published_key a \<ge> published_key b"
    by (simp_all add: published_key_def)
  then have "sort_reverse published_key [a, b, c] = [c, a, b]"
    by (rule sort_reverse_three)
  with h show "fetch_all_feeds env feeds since = [c, a, b]"
    by (simp add: fetch_all_feeds_def)
qed

lemma list_of_length_3: "length xs = 3 \<Longrightarrow> xs = [xs ! 0, xs ! 1, xs ! 2]"
  by (auto simp: numeral_3_eq_3 length_Suc_conv)

text \<open>
  Three feeds holding one article each, of 2024-01-03, undated and of 2024-01-05, come out
  of the aggregation as 2024-01-05, 2024-01-03, undated.
\<close>

theorem fetch_all_feeds_sorted_witness:
  "map published (concat (map (\<lambda>feed. fetch_feed ex_env feed 0) ex_three_feeds))
     = [Some 1704240000000000, None, Some 1704412800000000]
   \<and> datetime_min_utc \<le> 1704240000000000
   \<and> (1704240000000000 :: int) < 1704412800000000
   \<and> map published (fetch_all_feeds ex_env ex_three_feeds 0)
       = [Some 1704412800000000, Some 1704240000000000, None]"
proof -
  let ?xs = "concat (map (\<lambda>feed. fetch_feed ex_env feed 0) ex_three_feeds)"
  have len: "length ?xs = 3" by code_simp
  then have xs: "?xs = [?xs ! 0, ?xs ! 1, ?xs ! 2]" by (rule list_of_length_3)
  have m: "map published ?xs = [Some 1704240000000000, None, Some 1704412800000000]"
    by code_simp
  have p0: "published (?xs ! 0) = Some 1704240000000000"
  proof -
    have "published (?xs ! 0) = map published ?xs ! 0"
      by (rule nth_map[symmetric]) (simp add: len)
    also have "\<dots> = Some 1704240000000000" by (simp only: m) simp
    finally show ?thesis .
  qed
  have p1: "published (?xs ! 1) = None"
  proof -
    have "published (?xs ! 1) = map published ?xs ! 1"
      by (rule nth_map[symmetric]) (simp add: len)
    also have "\<dots> = None" by (simp only: m) simp
    finally show ?thesis .
  qed
  have p2: "published (?xs ! 2) = Some 1704412800000000"
  proof -
    have "published (?xs ! 2) = map published ?xs ! 2"
      by (rule nth_map[symmetric]) (simp add: len)
    also have "\<dots> = Some 1704412800000000" by (simp only: m) simp
    finally show ?thesis .
  qed
  have lo: "datetime_min_utc \<le> 1704240000000000" by (simp add: datetime_min_utc_def)
  have lt: "(1704240000000000 :: int) < 1704412800000000" by simp
  from fetch_all_feeds_sorted[of ex_env ex_three_feeds 0 _ "?xs ! 0" "?xs ! 1" "?xs ! 2"
      1704240000000000 1704412800000000] xs p0 p1 p2 lo lt
  have r: "fetch_all_feeds ex_env ex_three_feeds 0 = [?xs ! 2, ?xs ! 0, ?xs ! 1]" by blast
  have "map published (fetch_all_feeds ex_env ex_three_feeds 0)
       = [Some 1704412800000000, Some 1704240000000000, None]"
    by (simp only: r list.map p0 p1 p2)
  with m have ?thesis using lo lt by blast
  then show ?thesis .
qed

section \<open>Content enricher: properties\<close>

text \<open>
  C5.  The enricher replaces an article's full content by the text extracted from its page
  exactly when that text is longer than 200 characters; with a text of 200 characters or
  fewer, or when fetching or parsing raises, it leaves the article as it was.  No other field
  and no other article changes.
\<close>

theorem enrich_replaces_iff_over_200:
  "enrich_articles_with_full_content env articles =
     map (\<lambda>a. case extracted_text env a of
                 None \<Rightarrow> a
               | Some text \<Rightarrow> if length text > 200 then a\<lparr>full_content := text\<rparr> else a)
       articles"
  by (auto simp: enrich_articles_with_full_content_def bounded_fetch_def fetch_page_content_def
       extracted_text_def Let_def split: option.splits)

text \<open>
  A page of 201 characters replaces the feed text, a page of 200 characters and a failed
  fetch do not.
\<close>

theorem enrich_replaces_iff_over_200_witness:
  "map (\<lambda>a. length (full_content a))
     (enrich_articles_with_full_content ex_env
        [ex_article (ascii ''long'') [] (ascii ''feed''),
         ex_article (ascii ''short'') [] (ascii ''feed''),
         ex_article (ascii ''down'') [] (ascii ''feed'')])
   = [201, 4, 4]"
  unfolding enrich_replaces_iff_over_200 by code_simp

section \<open>Batch transformer: properties\<close>

lemma summarize_loop_map:
  "summarize_loop env articles results = results @ map (summarize_one env) articles"
  by (induction articles arbitrary: results) simp_all

lemma summarize_with_llm_map:
  "summarize_with_llm env articles = map (summarize_one env) articles"
  by (simp add: summarize_with_llm_def summarize_loop_map)

lemma store_results_zip:
  "idx + length results \<le> length articles \<Longrightarrow>
   store_results idx results articles =
     take idx articles @ map (\<lambda>(r, a). store_result r a) (zip results (drop idx articles))
     @ drop (idx + length results) articles"
proof (induction results arbitrary: idx articles)
  case Nil
  then show ?case by simp
next
  case (Cons r rs)
  then have lt: "idx < length articles" by simp
  let ?xs = "articles[idx := store_result r (articles ! idx)]"
  have "store_results (idx + 1) rs ?xs =
     take (idx + 1) ?xs @ map (\<lambda>(r, a). store_result r a) (zip rs (drop (idx + 1) ?xs))
     @ drop (idx + 1 + length rs) ?xs"
    using Cons.prems by (intro Cons.IH) simp
  moreover have "take (idx + 1) ?xs = take idx articles @ [store_result r (articles ! idx)]"
    using lt by (simp add: take_Suc_conv_app_nth)
  moreover have "drop (idx + 1) ?xs = drop (idx + 1) articles" by simp
  moreover have "drop (idx + 1 + length rs) ?xs = drop (idx + 1 + length rs) articles" by simp
  moreover have "drop idx articles = articles ! idx # drop (idx + 1) articles"
    using lt by (simp add: Cons_nth_drop_Suc)
  ultimately show ?case by simp
qed

lemma zip_map_take:
  "map (\<lambda>(r, a). g r a) (zip (map f (take n zs)) zs) = map (\<lambda>a. g (f a) a) (take n zs)"
proof (induction zs arbitrary: n)
  case Nil
  then show ?case by simp
next
  case (Cons z zs)
  then show ?case by (cases n) simp_all
qed

lemma store_batch:
  "store_results i (summarize_with_llm env (take n (drop i articles))) articles =
     take i articles @ map (classify env) (take n (drop i articles)) @ drop (i + n) articles"
proof -
  let ?rs = "summarize_with_llm env (take n (drop i articles))"
  have len: "length ?rs = min n (length articles - i)"
    by (simp add: summarize_with_llm_map)
  then have "i + length ?rs \<le> length articles \<or> length articles < i" by auto
  then show ?thesis
  proof
    assume le: "i + length ?rs \<le> length articles"
    have d: "drop (i + length ?rs) articles = drop (i + n) articles"
      using len by (cases "n \<le> length articles - i") simp_all
    show ?thesis
      using store_results_zip[OF le] d
      by (simp add: summarize_with_llm_map zip_map_take classify_def)
  next
    assume "length articles < i"
    then show ?thesis by (simp add: summarize_with_llm_map)
  qed
qed

lemma batch_loop_map:
  "batch_loop env i articles = take i articles @ map (classify env) (drop i articles)"
proof (induction env i articles rule: batch_loop.induct)
  case (1 env i articles)
  show ?case
  proof (cases "i < length articles")
    case False
    then show ?thesis by simp
  next
    case True
    let ?n = LLM_BATCH_SIZE
    let ?xs = "store_results i (summarize_with_llm env (take ?n (drop i articles))) articles"
    have xs: "?xs = take i articles @ map (classify env) (take ?n (drop i articles))
                      @ drop (i + ?n) articles"
      by (rule store_batch)
    have "batch_loop env i articles = batch_loop env (i + ?n) ?xs"
      using True by simp
    also have "\<dots> = take (i + ?n) ?xs @ map (classify env) (drop (i + ?n) ?xs)"
      using True by (rule "1.IH")
    also have "take (i + ?n) ?xs = take i articles @ map (classify env) (take ?n (drop i articles))"
      using True by (subst xs) (auto simp: min_def)
    also have "drop (i + ?n) ?xs = drop ?n (drop i articles)"
      using True by (subst xs) (auto simp: min_def add.commute)
    finally have "batch_loop env i articles =
        take i articles @ map (classify env) (take ?n (drop i articles))
        @ map (classify env) (drop ?n (drop i articles))"
      by (simp del: batch_loop.simps)
    moreover have "map (classify env) (take ?n (drop i articles))
        @ map (classify env) (drop ?n (drop i articles)) = map (classify env) (drop i articles)"
      by (simp only: map_append[symmetric] append_take_drop_id)
    ultimately show ?thesis by (simp del: batch_loop.simps)
  qed
qed

lemma batch_loop_0: "batch_loop env 0 articles = map (classify env) articles"
  by (simp add: batch_loop_map del: batch_loop.simps)

lemma category_enrich_detail_one: "category (enrich_detail_one env a) = category a"
  by (simp add: enrich_detail_one_def Let_def split: option.splits)

lemma is_relevant_enrich_detail_one: "is_relevant (enrich_detail_one env a) = is_relevant a"
  by (simp add: enrich_detail_one_def Let_def split: option.splits)

lemma other_not_relevant:
  "s_category (summarize_one env a) = OTHER \<Longrightarrow> \<not> s_is_relevant (summarize_one env a)"
  by (auto simp: summarize_one_def Let_def split: LlmReply.splits if_splits)

lemma ai_summarize_articles_eq:
  "ai_summarize_articles env articles enable_filter =
     map (enrich_detail_one env)
       (if enable_filter then filter is_relevant (map (classify env) articles)
        else map (classify env) articles)"
  by (simp add: ai_summarize_articles_def batch_loop_0 enrich_detail_with_llm_def Let_def
        del: batch_loop.simps)

text \<open>
  C2, as stated, fails for a classifier call that raises.  The article \<open>ex_outage\<close> has the
  feed summary \<^verbatim>\<open>feed summary\<close>; its call raises, and its result carries that feed summary,
  not an empty one.
\<close>

theorem summarize_with_llm_summary_counterexample:
  "classifier_reply ex_env ex_outage = Some CallRaises
   \<and> summarize_with_llm ex_env [ex_outage] =
       [\<lparr> s_title = ascii ''Original'', s_summary = ascii ''feed summary'',
          s_category = OTHER, s_is_relevant = False \<rparr>]
   \<and> ascii ''feed summary'' \<noteq> []"
  by code_simp

text \<open>
  C2, amended.  \<^verbatim>\<open>summarize_with_llm\<close> gives one result for each article of the batch, and
  the result of an article is a function of that article alone, so a failure on one article
  leaves the results of its siblings as they are.  When the call or the decoding of the
  reply raises, the result is the category ``other'', not relevant, the original title and
  the article's feed summary; when the reply holds no object, or the article has no content
  (and no call is made), it is the same with an empty summary.
\<close>

theorem summarize_with_llm_failure_defaults:
  "length (summarize_with_llm env batch) = length batch
   \<and> (\<forall>j<length batch. summarize_with_llm env batch ! j = summarize_one env (batch ! j))
   \<and> (classifier_reply env a = Some CallRaises \<or> classifier_reply env a = Some JsonLoadsRaises
        \<longrightarrow> summarize_one env a =
              \<lparr> s_title = title a, s_summary = summary a, s_category = OTHER,
                s_is_relevant = False \<rparr>)
   \<and> (classifier_reply env a = Some NoJsonMatch \<or> classifier_reply env a = None
        \<longrightarrow> summarize_one env a =
              \<lparr> s_title = title a, s_summary = [], s_category = OTHER,
                s_is_relevant = False \<rparr>)"
  by (auto simp: summarize_with_llm_map classifier_reply_def summarize_one_def Let_def
        split: if_splits)

text \<open>
  In a batch of a failing article and a sound one, the failing one gets the defaults with
  its feed summary and the sound one its classification.
\<close>

theorem summarize_with_llm_failure_defaults_witness:
  "(1 :: nat) < length [ex_outage, ex_tensor]
   \<and> classifier_reply ex_env ex_outage = Some CallRaises
   \<and> summarize_one ex_env ex_outage =
       \<lparr> s_title = title ex_outage, s_summary = summary ex_outage, s_category = OTHER,
         s_is_relevant = False \<rparr>
   \<and> summarize_with_llm ex_env [ex_outage, ex_tensor] ! 1 =
       \<lparr> s_title = ascii ''Model'', s_summary = ascii ''Weights'', s_category = ascii ''AI'',
         s_is_relevant = True \<rparr>"
proof -
  have l: "(1 :: nat) < length [ex_outage, ex_tensor]" by simp
  have c: "classifier_reply ex_env ex_outage = Some CallRaises" by code_simp
  have t: "summarize_one ex_env ([ex_outage, ex_tensor] ! 1) =
       \<lparr> s_title = ascii ''Model'', s_summary = ascii ''Weights'', s_category = ascii ''AI'',
         s_is_relevant = True \<rparr>"
    by code_simp
  from summarize_with_llm_failure_defaults[of ex_env "[ex_outage, ex_tensor]" ex_outage] l c
  have "summarize_with_llm ex_env [ex_outage, ex_tensor] ! 1
          = summarize_one ex_env ([ex_outage, ex_tensor] ! 1)"
    and "summarize_one ex_env ex_outage =
       \<lparr> s_title = title ex_outage, s_summary = summary ex_outage, s_category = OTHER,
         s_is_relevant = False \<rparr>"
    by blast+
  with l c t show ?thesis by simp
qed

text \<open>
  C6.  Whatever the classifier replies, a result of category ``other'' is not relevant; a
  reply whose category is ``other'', or has none, gives the original title, an empty summary
  and not relevant, whatever its \<^verbatim>\<open>is_relevant\<close> says.  With filtering enabled the
  transformer returns the relevant classified articles only, so none of category ``other''.
\<close>

theorem other_category_forced_irrelevant:
  "(s_category (summarize_one env a) = OTHER \<longrightarrow> \<not> s_is_relevant (summarize_one env a))
   \<and> (classifier_reply env a = Some (JsonObject data) \<and> get_or (d_category data) OTHER = OTHER
        \<longrightarrow> summarize_one env a =
              \<lparr> s_title = title a, s_summary = [], s_category = OTHER,
                s_is_relevant = False \<rparr>)
   \<and> ai_summarize_articles env articles True =
        map (enrich_detail_one env) (filter is_relevant (map (classify env) articles))
   \<and> (\<forall>x\<in>set (ai_summarize_articles env articles True). category x \<noteq> OTHER \<and> is_relevant x)"
proof (intro conjI impI ballI)
  show "s_category (summarize_one env a) = OTHER \<Longrightarrow> \<not> s_is_relevant (summarize_one env a)"
    by (rule other_not_relevant)
  show "classifier_reply env a = Some (JsonObject data) \<and> get_or (d_category data) OTHER = OTHER
    \<Longrightarrow> summarize_one env a =
        \<lparr> s_title = title a, s_summary = [], s_category = OTHER, s_is_relevant = False \<rparr>"
    by (auto simp: classifier_reply_def summarize_one_def Let_def split: if_splits)
  show "ai_summarize_articles env articles True =
        map (enrich_detail_one env) (filter is_relevant (map (classify env) articles))"
    by (simp add: ai_summarize_articles_eq)
next
  fix x assume "x \<in> set (ai_summarize_articles env articles True)"
  then obtain y where y: "y \<in> set articles" "is_relevant (classify env y)"
    and x: "x = enrich_detail_one env (classify env y)"
    by (auto simp: ai_summarize_articles_eq)
  from y(2) have r: "s_is_relevant (summarize_one env y)"
    by (simp add: classify_def store_result_def)
  with other_not_relevant[of env y] have "s_category (summarize_one env y) \<noteq> OTHER" by blast
  then show "category x \<noteq> OTHER"
    by (simp add: x classify_def store_result_def category_enrich_detail_one)
  from y(2) show "is_relevant x" by (simp add: x is_relevant_enrich_detail_one)
qed

text \<open>
  The classifier files \<open>ex_garden\<close> under ``other'' and calls it relevant; its result is
  not relevant, and with filtering enabled only \<open>ex_tensor\<close> is returned.
\<close>

theorem other_category_forced_irrelevant_witness:
  "classifier_reply ex_env ex_garden =
     Some (JsonObject \<lparr> d_category = Some OTHER, d_is_relevant = Some True,
                         d_title = Some (ascii ''Garden''), d_summary = Some (ascii ''Plants'') \<rparr>)
   \<and> summarize_one ex_env ex_garden =
       \<lparr> s_title = title ex_garden, s_summary = [], s_category = OTHER, s_is_relevant = False \<rparr>
   \<and> map link (ai_summarize_articles ex_env [ex_garden, ex_tensor] True) = [link ex_tensor]"
proof -
  let ?d = "\<lparr> d_category = Some OTHER, d_is_relevant = Some True,
              d_title = Some (ascii ''Garden''), d_summary = Some (ascii ''Plants'') \<rparr>"
  have c: "classifier_reply ex_env ex_garden = Some (JsonObject ?d)" by code_simp
  have g: "get_or (d_category ?d) OTHER = OTHER" by (simp add: get_or_def)
  from other_category_forced_irrelevant[of ex_env ex_garden ?d "[ex_garden, ex_tensor]"] c g
  have s: "summarize_one ex_env ex_garden =
       \<lparr> s_title = title ex_garden, s_summary = [], s_category = OTHER, s_is_relevant = False \<rparr>"
    and e: "ai_summarize_articles ex_env [ex_garden, ex_tensor] True =
        map (enrich_detail_one ex_env)
          (filter is_relevant (map (classify ex_env) [ex_garden, ex_tensor]))"
    by blast+
  have "map link (map (enrich_detail_one ex_env)
          (filter is_relevant (map (classify ex_env) [ex_garden, ex_tensor]))) = [link ex_tensor]"
    by code_simp
  with c s show ?thesis by (simp only: e simp_thms)
qed

text \<open>
  C7.  With filtering disabled the transformer returns every article it was given, each
  classified and with its detail text, in input order: the articles of category ``other''
  and the ones that are not relevant are kept.
\<close>

theorem no_filter_retains_all:
  "ai_summarize_articles env articles False =
     map (\<lambda>a. enrich_detail_one env (classify env a)) articles
   \<and> length (ai_summarize_articles env articles False) = length articles
   \<and> map link (ai_summarize_articles env articles False) = map link articles"
  by (simp add: ai_summarize_articles_eq classify_def store_result_def enrich_detail_one_def
        Let_def comp_def split: option.splits)

text \<open>
  Of three articles, one filed under ``other'', one classified \<^verbatim>\<open>AI\<close> and one whose call
  raises, all three are returned when filtering is disabled.
\<close>

theorem no_filter_retains_all_witness:
  "map (\<lambda>a. (category a, is_relevant a))
     (ai_summarize_articles ex_env [ex_garden, ex_tensor, ex_outage] False)
   = [(OTHER, False), (ascii ''AI'', True), (OTHER, False)]"
proof -
  have "ai_summarize_articles ex_env [ex_garden, ex_tensor, ex_outage] False =
     map (\<lambda>a. enrich_detail_one ex_env (classify ex_env a)) [ex_garden, ex_tensor, ex_outage]"
    using no_filter_retains_all[of ex_env "[ex_garden, ex_tensor, ex_outage]"] by blast
  moreover have "map (\<lambda>a. (category a, is_relevant a))
      (map (\<lambda>a. enrich_detail_one ex_env (classify ex_env a)) [ex_garden, ex_tensor, ex_outage])
    = [(OTHER, False), (ascii ''AI'', True), (OTHER, False)]"
    by code_simp
  ultimately show ?thesis by (simp only:)
qed

section \<open>Poll loop: properties\<close>

lemma run_watch_step:
  "rounds (Suc round_count) \<noteq> Interrupt \<Longrightarrow> \<not> cancelled (Suc round_count) \<Longrightarrow>
   run_watch rounds cancelled interval (Suc fuel) round_count =
     round_events rounds interval (Suc round_count)
     @ run_watch rounds cancelled interval fuel (Suc round_count)"
  by (cases "rounds (Suc round_count)") (simp_all add: round_events_def round_log_def)

lemma run_watch_reaches_sleep:
  "rounds (Suc round_count) = PassRaises \<Longrightarrow>
   take 3 (run_watch rounds cancelled interval (Suc fuel) round_count) =
     [RoundStart (Suc round_count), LogError, Sleep (interval * 60)]"
  by simp

lemma length_round_events: "length (round_events rounds interval n) = 3"
  by (simp add: round_events_def)

lemma run_watch_rounds:
  "(\<forall>n. round_count < n \<and> n \<le> round_count + fuel \<longrightarrow> rounds n \<noteq> Interrupt \<and> \<not> cancelled n) \<Longrightarrow>
   run_watch rounds cancelled interval fuel round_count =
     concat (map (round_events rounds interval) [Suc round_count ..< Suc (round_count + fuel)])"
proof (induction fuel arbitrary: round_count)
  case 0
  then show ?case by simp
next
  case (Suc fuel)
  have ne: "rounds (Suc round_count) \<noteq> Interrupt" and nc: "\<not> cancelled (Suc round_count)"
    using Suc.prems by simp_all
  have ih: "run_watch rounds cancelled interval fuel (Suc round_count) =
     concat (map (round_events rounds interval) [Suc (Suc round_count) ..< Suc (Suc round_count + fuel)])"
    using Suc.prems by (intro Suc.IH) simp
  have up: "[Suc round_count ..< Suc (round_count + Suc fuel)] =
      Suc round_count # [Suc (Suc round_count) ..< Suc (Suc round_count + fuel)]"
    by (simp add: upt_conv_Cons del: upt_Suc)
  show ?case
    unfolding run_watch_step[of rounds round_count cancelled interval fuel, OF ne nc] ih up
    by simp
qed

lemma run_watch_drop:
  "(\<forall>n. round_count < n \<and> n \<le> round_count + m \<longrightarrow> rounds n \<noteq> Interrupt \<and> \<not> cancelled n) \<Longrightarrow>
   m \<le> fuel \<Longrightarrow>
   drop (3 * m) (run_watch rounds cancelled interval fuel round_count) =
     run_watch rounds cancelled interval (fuel - m) (round_count + m)"
proof (induction m arbitrary: round_count fuel)
  case 0
  then show ?case by simp
next
  case (Suc m)
  then obtain f where f: "fuel = Suc f" and mf: "m \<le> f" by (cases fuel) auto
  have ne: "rounds (Suc round_count) \<noteq> Interrupt" and nc: "\<not> cancelled (Suc round_count)"
    using Suc.prems by simp_all
  have ih: "drop (3 * m) (run_watch rounds cancelled interval f (Suc round_count)) =
     run_watch rounds cancelled interval (f - m) (Suc round_count + m)"
    using Suc.prems mf by (intro Suc.IH) auto
  have "drop (3 * Suc m) (run_watch rounds cancelled interval fuel round_count)
      = drop (3 * m) (run_watch rounds cancelled interval f (Suc round_count))"
    unfolding f run_watch_step[of rounds round_count cancelled interval f, OF ne nc]
    by (simp add: length_round_events)
  with ih f show ?case by simp
qed

text \<open>
  C9.  Run the loop for \<open>fuel\<close> rounds.  If no round up to \<open>fuel\<close> is interrupted or
  cancelled in its sleep, the loop goes through all of them, whatever their passes return
  or raise: each round starts, logs its outcome and sleeps.  If round \<open>k + 1\<close> raises an
  \<^verbatim>\<open>Exception\<close> (no earlier round being interrupted or cancelled), the loop logs the error
  and reaches the sleep of \<^verbatim>\<open>interval * 60\<close> seconds; and unless it is cancelled during that
  sleep, it starts round \<open>k + 2\<close>.
\<close>

theorem run_watch_survives_failed_round:
  "((\<forall>n. 1 \<le> n \<and> n \<le> fuel \<longrightarrow> rounds n \<noteq> Interrupt \<and> \<not> cancelled n) \<longrightarrow>
      run_watch rounds cancelled interval fuel 0
        = concat (map (round_events rounds interval) [1 ..< Suc fuel]))
   \<and> (k < fuel \<and> (\<forall>n. 1 \<le> n \<and> n \<le> k \<longrightarrow> rounds n \<noteq> Interrupt \<and> \<not> cancelled n)
        \<and> rounds (Suc k) = PassRaises
      \<longrightarrow> take 3 (drop (3 * k) (run_watch rounds cancelled interval fuel 0))
            = [RoundStart (Suc k), LogError, Sleep (interval * 60)])
   \<and> (Suc k < fuel \<and> (\<forall>n. 1 \<le> n \<and> n \<le> k \<longrightarrow> rounds n \<noteq> Interrupt \<and> \<not> cancelled n)
        \<and> rounds (Suc k) = PassRaises \<and> \<not> cancelled (Suc k)
      \<longrightarrow> take 4 (drop (3 * k) (run_watch rounds cancelled interval fuel 0))
            = [RoundStart (Suc k), LogError, Sleep (interval * 60), RoundStart (Suc (Suc k))])"
proof (intro conjI impI)
  assume "\<forall>n. 1 \<le> n \<and> n \<le> fuel \<longrightarrow> rounds n \<noteq> Interrupt \<and> \<not> cancelled n"
  then have "\<forall>n. 0 < n \<and> n \<le> 0 + fuel \<longrightarrow> rounds n \<noteq> Interrupt \<and> \<not> cancelled n" by simp
  from run_watch_rounds[OF this]
  show "run_watch rounds cancelled interval fuel 0
          = concat (map (round_events rounds interval) [1 ..< Suc fuel])"
    by simp
next
  assume h: "k < fuel \<and> (\<forall>n. 1 \<le> n \<and> n \<le> k \<longrightarrow> rounds n \<noteq> Interrupt \<and> \<not> cancelled n)
               \<and> rounds (Suc k) = PassRaises"
  then have "\<forall>n. 0 < n \<and> n \<le> 0 + k \<longrightarrow> rounds n \<noteq> Interrupt \<and> \<not> cancelled n" by simp
  moreover have "k \<le> fuel" using h by simp
  ultimately have d: "drop (3 * k) (run_watch rounds cancelled interval fuel 0)
          = run_watch rounds cancelled interval (fuel - k) (0 + k)"
    by (rule run_watch_drop)
  obtain f where f: "fuel - k = Suc f"
    using h by (cases "fuel - k") auto
  show "take 3 (drop (3 * k) (run_watch rounds cancelled interval fuel 0))
          = [RoundStart (Suc k), LogError, Sleep (interval * 60)]"
    unfolding d f using h by simp
next
  assume h: "Suc k < fuel \<and> (\<forall>n. 1 \<le> n \<and> n \<le> k \<longrightarrow> rounds n \<noteq> Interrupt \<and> \<not> cancelled n)
               \<and> rounds (Suc k) = PassRaises \<and> \<not> cancelled (Suc k)"
  then have "\<forall>n. 0 < n \<and> n \<le> 0 + k \<longrightarrow> rounds n \<noteq> Interrupt \<and> \<not> cancelled n" by simp
  moreover have "k \<le> fuel" using h by simp
  ultimately have d: "drop (3 * k) (run_watch rounds cancelled interval fuel 0)
          = run_watch rounds cancelled interval (fuel - k) (0 + k)"
    by (rule run_watch_drop)
  obtain f where f: "fuel - k = Suc (Suc f)"
    using h by (cases "fuel - k"; cases "fuel - k - 1") auto
  show "take 4 (drop (3 * k) (run_watch rounds cancelled interval fuel 0))
          = [RoundStart (Suc k), LogError, Sleep (interval * 60), RoundStart (Suc (Suc k))]"
    unfolding d f using h by simp
qed

text \<open>
  Three rounds whose second pass raises: the loop logs the error, sleeps 1800 seconds and
  starts the third round.
\<close>

theorem run_watch_survives_failed_round_witness:
  "Suc 1 < 3 \<and> ex_rounds 1 \<noteq> Interrupt \<and> \<not> ex_cancelled 1
   \<and> ex_rounds (Suc 1) = PassRaises \<and> \<not> ex_cancelled (Suc 1)
   \<and> take 4 (drop (3 * 1) (run_watch ex_rounds ex_cancelled 30 3 0))
       = [RoundStart 2, LogError, Sleep 1800, RoundStart 3]
   \<and> run_watch ex_rounds ex_cancelled 30 3 0 =
       [RoundStart 1, LogNothingNew, Sleep 1800, RoundStart 2, LogError, Sleep 1800,
        RoundStart 3, LogNothingNew, Sleep 1800]"
proof -
  have a: "Suc 1 < (3 :: nat)" by simp
  have b: "\<forall>n. 1 \<le> n \<and> n \<le> 1 \<longrightarrow> ex_rounds n \<noteq> Interrupt \<and> \<not> ex_cancelled n"
    by (simp add: ex_rounds_def ex_cancelled_def)
  have b1: "ex_rounds 1 \<noteq> Interrupt" "\<not> ex_cancelled 1"
    by (simp_all add: ex_rounds_def ex_cancelled_def)
  have c: "ex_rounds (Suc 1) = PassRaises" "\<not> ex_cancelled (Suc 1)"
    by (simp_all add: ex_rounds_def ex_cancelled_def)
  have e: "\<forall>n. 1 \<le> n \<and> n \<le> 3 \<longrightarrow> ex_rounds n \<noteq> Interrupt \<and> \<not> ex_cancelled n"
    by (simp add: ex_rounds_def ex_cancelled_def)
  from run_watch_survives_failed_round[of 3 ex_rounds ex_cancelled 30 1] a b c e
  have w: "take 4 (drop (3 * 1) (run_watch ex_rounds ex_cancelled 30 3 0))
       = [RoundStart (Suc 1), LogError, Sleep (30 * 60), RoundStart (Suc (Suc 1))]"
    and t: "run_watch ex_rounds ex_cancelled 30 3 0
              = concat (map (round_events ex_rounds 30) [1 ..< Suc 3])"
    by blast+
  have "concat (map (round_events ex_rounds 30) [1 ..< Suc 3]) =
       [RoundStart 1, LogNothingNew, Sleep 1800, RoundStart 2, LogError, Sleep 1800,
        RoundStart 3, LogNothingNew, Sleep 1800]"
    by code_simp
  with t have t': "run_watch ex_rounds ex_cancelled 30 3 0 =
       [RoundStart 1, LogNothingNew, Sleep 1800, RoundStart 2, LogError, Sleep 1800,
        RoundStart 3, LogNothingNew, Sleep 1800]" by simp
  from w have w': "take 4 (drop (3 * 1) (run_watch ex_rounds ex_cancelled 30 3 0))
       = [RoundStart 2, LogError, Sleep 1800, RoundStart 3]"
    by (simp add: numeral_2_eq_2 numeral_3_eq_3)
  from a b1 c w' t' show ?thesis by blast
qed

section \<open>Pipeline orchestrator: properties\<close>

lemma keys_mark_as_sent:
  "fst ` set (mark_as_sent md5 clock n articles db) = fst ` set db \<union> article_id md5 ` set articles"
  by (induction articles arbitrary: n db) (auto simp: dom_update)

lemma map_of_mark_as_sent_other:
  "k \<notin> article_id md5 ` set articles \<Longrightarrow>
   map_of (mark_as_sent md5 clock n articles db) k = map_of db k"
  by (induction articles arbitrary: n db) (auto simp: update_conv)

lemma map_of_mark_as_sent_last:
  "i < length articles \<Longrightarrow>
   \<forall>j. i < j \<and> j < length articles \<longrightarrow>
        article_id md5 (articles ! j) \<noteq> article_id md5 (articles ! i) \<Longrightarrow>
   map_of (mark_as_sent md5 clock n articles db) (article_id md5 (articles ! i)) =
     Some \<lparr> rec_title = title (articles ! i), rec_link = link (articles ! i),
            sent_at = Some (isoformat (clock (n + i))) \<rparr>"
proof (induction articles arbitrary: n db i)
  case Nil
  then show ?case by simp
next
  case (Cons a rest)
  show ?case
  proof (cases i)
    case 0
    have "article_id md5 a \<notin> article_id md5 ` set rest"
    proof
      assume "article_id md5 a \<in> article_id md5 ` set rest"
      then obtain j where "j < length rest" "article_id md5 (rest ! j) = article_id md5 a"
        by (auto simp: in_set_conv_nth)
      with Cons.prems(2)[rule_format, of "Suc j"] 0 show False by simp
    qed
    then show ?thesis using 0 by (simp add: map_of_mark_as_sent_other update_conv)
  next
    case (Suc i')
    have "i' < length rest" using Cons.prems(1) Suc by simp
    moreover have "\<forall>j. i' < j \<and> j < length rest \<longrightarrow>
        article_id md5 (rest ! j) \<noteq> article_id md5 (rest ! i')"
    proof (intro allI impI)
      fix j assume "i' < j \<and> j < length rest"
      with Cons.prems(2)[rule_format, of "Suc j"] Suc
      show "article_id md5 (rest ! j) \<noteq> article_id md5 (rest ! i')" by simp
    qed
    ultimately have "map_of (mark_as_sent md5 clock (Suc n) rest
          (AList.update (article_id md5 a)
             \<lparr> rec_title = title a, rec_link = link a, sent_at = Some (isoformat (clock n)) \<rparr> db))
        (article_id md5 (rest ! i')) =
      Some \<lparr> rec_title = title (rest ! i'), rec_link = link (rest ! i'),
             sent_at = Some (isoformat (clock (Suc n + i'))) \<rparr>"
      by (rule Cons.IH)
    then show ?thesis using Suc by simp
  qed
qed

lemma last_occurrence:
  assumes "a \<in> set xs"
  shows "\<exists>i<length xs. f (xs ! i) = f a \<and> (\<forall>j. i < j \<and> j < length xs \<longrightarrow> f (xs ! j) \<noteq> f (xs ! i))"
proof -
  let ?S = "{i. i < length xs \<and> f (xs ! i) = f a}"
  have fin: "finite ?S" by simp
  from assms obtain i0 where "i0 < length xs" "xs ! i0 = a" by (auto simp: in_set_conv_nth)
  then have ne: "?S \<noteq> {}" by auto
  let ?m = "Max ?S"
  have m: "?m \<in> ?S" using fin ne by (rule Max_in)
  have "\<forall>j. ?m < j \<and> j < length xs \<longrightarrow> f (xs ! j) \<noteq> f (xs ! ?m)"
  proof (intro allI impI notI)
    fix j assume j: "?m < j \<and> j < length xs" and e: "f (xs ! j) = f (xs ! ?m)"
    with m have "j \<in> ?S" by simp
    then have "j \<le> ?m" using fin by (rule Max_ge[rotated])
    with j show False by simp
  qed
  with m show ?thesis by blast
qed

lemma stamped_mark_as_sent:
  assumes "a \<in> set articles"
  shows "\<exists>i<length articles.
           article_id md5 (articles ! i) = article_id md5 a
           \<and> map_of (mark_as_sent md5 clock 0 articles db) (article_id md5 a) =
               Some \<lparr> rec_title = title (articles ! i), rec_link = link (articles ! i),
                      sent_at = Some (isoformat (clock i)) \<rparr>"
proof -
  from last_occurrence[OF assms, of "article_id md5"] obtain i where i: "i < length articles"
    and e: "article_id md5 (articles ! i) = article_id md5 a"
    and l: "\<forall>j. i < j \<and> j < length articles \<longrightarrow>
              article_id md5 (articles ! j) \<noteq> article_id md5 (articles ! i)"
    by blast
  from map_of_mark_as_sent_last[OF i l, of clock 0 db] e i show ?thesis by auto
qed

lemma parse_date_post: "parse_date (env\<lparr>wecom_post := post\<rparr>) e = parse_date env e"
  by (simp add: parse_date_def split: attempt.split option.split)

lemma any_date_post: "any_date (env\<lparr>wecom_post := post\<rparr>) es = any_date env es"
  by (induction es) (simp_all add: parse_date_post split: attempt.split option.split)

lemma make_article_post:
  "make_article (env\<lparr>wecom_post := post\<rparr>) src e d = make_article env src e d"
  by (simp add: make_article_def)

lemma collect_entries_post:
  "collect_entries (env\<lparr>wecom_post := post\<rparr>) src since h c es acc
     = collect_entries env src since h c es acc"
  by (induction es arbitrary: c acc)
     (auto simp: parse_date_post make_article_post split: attempt.split option.split)

lemma fetch_feed_post:
  "fetch_feed (env\<lparr>wecom_post := post\<rparr>) src since = fetch_feed env src since"
  by (simp add: fetch_feed_def any_date_post collect_entries_post
        split: FeedResponse.split attempt.split)

lemma fetch_all_feeds_post:
  "fetch_all_feeds (env\<lparr>wecom_post := post\<rparr>) feeds since = fetch_all_feeds env feeds since"
  by (simp add: fetch_all_feeds_def fetch_feed_post)

lemma enrich_post:
  "enrich_articles_with_full_content (env\<lparr>wecom_post := post\<rparr>) articles
     = enrich_articles_with_full_content env articles"
  by (simp add: enrich_articles_with_full_content_def bounded_fetch_def fetch_page_content_def
        split: option.split)

lemma ai_summarize_articles_post:
  "ai_summarize_articles (env\<lparr>wecom_post := post\<rparr>) articles enable_filter
     = ai_summarize_articles env articles enable_filter"
proof -
  have c: "classify (env\<lparr>wecom_post := post\<rparr>) = classify env"
    by (rule ext) (simp add: classify_def summarize_one_def Let_def split: LlmReply.split)
  have d: "enrich_detail_one (env\<lparr>wecom_post := post\<rparr>) = enrich_detail_one env"
    by (rule ext) (simp add: enrich_detail_one_def Let_def split: option.split)
  show ?thesis by (simp only: ai_summarize_articles_eq c d)
qed

lemma fetch_and_process_cases:
  "returned (fetch_and_process env render feeds now clock page_url days since webhook_url
       sent_db enable_filter) \<noteq> [] \<Longrightarrow>
   saved_db (fetch_and_process env render feeds now clock page_url days since webhook_url
       sent_db enable_filter) =
     (case sent_db of
        None \<Rightarrow> None
      | Some db \<Rightarrow>
          Some (mark_as_sent (md5_hexdigest env) clock 0
                  (returned (fetch_and_process env render feeds now clock page_url days since
                     webhook_url sent_db enable_filter)) db))
   \<and> push (fetch_and_process env render feeds now clock page_url days since webhook_url
       sent_db enable_filter) =
     (case webhook_url of
        None \<Rightarrow> NotPushed
      | Some url \<Rightarrow>
          if url \<noteq> [] then
            send_to_wecom env render
              (returned (fetch_and_process env render feeds now clock page_url days since
                 webhook_url sent_db enable_filter)) page_url
          else NotPushed)"
  by (cases sent_db; cases webhook_url)
     (auto simp: fetch_and_process_def Let_def split: if_splits)

lemma fetch_and_process_post:
  "returned (fetch_and_process (env\<lparr>wecom_post := post\<rparr>) render feeds now clock page_url days
       since webhook_url sent_db enable_filter)
     = returned (fetch_and_process env render feeds now clock page_url days since webhook_url
         sent_db enable_filter)
   \<and> saved_db (fetch_and_process (env\<lparr>wecom_post := post\<rparr>) render feeds now clock page_url days
       since webhook_url sent_db enable_filter)
     = saved_db (fetch_and_process env render feeds now clock page_url days since webhook_url
         sent_db enable_filter)"
  by (cases sent_db)
     (simp_all add: fetch_and_process_def Let_def fetch_all_feeds_post enrich_post
        ai_summarize_articles_post)

text \<open>
  C10.  Let a pass that was given a dedup mapping return a non-empty list.  Then the pass
  saves the mapping with every returned article recorded as sent: under the digest of its
  link stands a record with the title and the link of the article (of the last returned
  article with that digest) and, as \<^verbatim>\<open>sent_at\<close>, the ISO string of the clock reading made
  for it; the records under other keys are as they were, and every returned article is
  filtered out against the saved mapping.  A push, if one is made, is built from the top
  five of the returned articles and carries whatever the webhook answered; and the returned
  list and the saved mapping are the same whatever the webhook answers, so a rejected or
  failed delivery still records every returned article.
\<close>

theorem pass_marks_all_output_sent:
  assumes "P = fetch_and_process env render feeds now clock page_url days since webhook_url
                 (Some db) enable_filter"
    and "returned P \<noteq> []"
  shows "saved_db P = Some (mark_as_sent (md5_hexdigest env) clock 0 (returned P) db)
       \<and> (\<forall>a\<in>set (returned P).
            article_id (md5_hexdigest env) a
              \<in> fst ` set (mark_as_sent (md5_hexdigest env) clock 0 (returned P) db))
       \<and> fst ` set db \<subseteq> fst ` set (mark_as_sent (md5_hexdigest env) clock 0 (returned P) db)
       \<and> (\<exists>saved. saved_db P = Some saved
            \<and> (\<forall>a\<in>set (returned P). \<exists>i<length (returned P).
                  article_id (md5_hexdigest env) (returned P ! i) = article_id (md5_hexdigest env) a
                  \<and> map_of saved (article_id (md5_hexdigest env) a) =
                      Some \<lparr> rec_title = title (returned P ! i), rec_link = link (returned P ! i),
                             sent_at = Some (isoformat (clock i)) \<rparr>)
            \<and> (\<forall>i<length (returned P).
                  (\<forall>j. i < j \<and> j < length (returned P) \<longrightarrow>
                       article_id (md5_hexdigest env) (returned P ! j)
                         \<noteq> article_id (md5_hexdigest env) (returned P ! i))
                  \<longrightarrow> map_of saved (article_id (md5_hexdigest env) (returned P ! i)) =
                        Some \<lparr> rec_title = title (returned P ! i), rec_link = link (returned P ! i),
                               sent_at = Some (isoformat (clock i)) \<rparr>)
            \<and> (\<forall>k. k \<notin> article_id (md5_hexdigest env) ` set (returned P)
                  \<longrightarrow> map_of saved k = map_of db k)
            \<and> filter_new_articles (md5_hexdigest env) (returned P) saved = [])
       \<and> (\<forall>url. webhook_url = Some url \<and> url \<noteq> [] \<longrightarrow>
            push P = Pushed (select_top_articles env (returned P) 5)
                       (wecom_post env
                          (render (select_top_articles env (returned P) 5) page_url
                             (length (returned P)))))
       \<and> length (select_top_articles env (returned P) 5) \<le> 5
       \<and> set (select_top_articles env (returned P) 5) \<subseteq> set (returned P)
       \<and> returned (fetch_and_process (env\<lparr>wecom_post := post\<rparr>) render feeds now clock page_url
            days since webhook_url (Some db) enable_filter) = returned P
       \<and> saved_db (fetch_and_process (env\<lparr>wecom_post := post\<rparr>) render feeds now clock page_url
            days since webhook_url (Some db) enable_filter) = saved_db P"
proof -
  let ?md5 = "md5_hexdigest env"
  let ?saved = "mark_as_sent ?md5 clock 0 (returned P) db"
  note c = fetch_and_process_cases[of env render feeds now clock page_url days since webhook_url
      "Some db" enable_filter, folded assms(1), OF assms(2)]
  have s: "saved_db P = Some ?saved"
    using c by simp
  have k: "\<forall>a\<in>set (returned P). article_id ?md5 a \<in> fst ` set ?saved"
    by (simp add: keys_mark_as_sent)
  have o: "fst ` set db \<subseteq> fst ` set ?saved"
    by (simp add: keys_mark_as_sent)
  have r1: "\<forall>a\<in>set (returned P). \<exists>i<length (returned P).
              article_id ?md5 (returned P ! i) = article_id ?md5 a
              \<and> map_of ?saved (article_id ?md5 a) =
                  Some \<lparr> rec_title = title (returned P ! i), rec_link = link (returned P ! i),
                         sent_at = Some (isoformat (clock i)) \<rparr>"
    using stamped_mark_as_sent[of _ "returned P" ?md5 clock db] by blast
  have r2: "\<forall>i<length (returned P).
              (\<forall>j. i < j \<and> j < length (returned P) \<longrightarrow>
                   article_id ?md5 (returned P ! j) \<noteq> article_id ?md5 (returned P ! i))
              \<longrightarrow> map_of ?saved (article_id ?md5 (returned P ! i)) =
                    Some \<lparr> rec_title = title (returned P ! i), rec_link = link (returned P ! i),
                           sent_at = Some (isoformat (clock i)) \<rparr>"
    using map_of_mark_as_sent_last[of _ "returned P" ?md5 clock 0 db] by simp
  have r3: "\<forall>k. k \<notin> article_id ?md5 ` set (returned P) \<longrightarrow> map_of ?saved k = map_of db k"
    by (simp add: map_of_mark_as_sent_other)
  have r4: "filter_new_articles ?md5 (returned P) ?saved = []"
    by (simp add: filter_new_articles_def keys_mark_as_sent)
  have r: "\<exists>saved. saved_db P = Some saved
            \<and> (\<forall>a\<in>set (returned P). \<exists>i<length (returned P).
                  article_id ?md5 (returned P ! i) = article_id ?md5 a
                  \<and> map_of saved (article_id ?md5 a) =
                      Some \<lparr> rec_title = title (returned P ! i), rec_link = link (returned P ! i),
                             sent_at = Some (isoformat (clock i)) \<rparr>)
            \<and> (\<forall>i<length (returned P).
                  (\<forall>j. i < j \<and> j < length (returned P) \<longrightarrow>
                       article_id ?md5 (returned P ! j) \<noteq> article_id ?md5 (returned P ! i))
                  \<longrightarrow> map_of saved (article_id ?md5 (returned P ! i)) =
                        Some \<lparr> rec_title = title (returned P ! i), rec_link = link (returned P ! i),
                               sent_at = Some (isoformat (clock i)) \<rparr>)
            \<and> (\<forall>k. k \<notin> article_id ?md5 ` set (returned P) \<longrightarrow> map_of saved k = map_of db k)
            \<and> filter_new_articles ?md5 (returned P) saved = []"
    using s r1 r2 r3 r4 by (intro exI[of _ ?saved] conjI)
  have p: "\<forall>url. webhook_url = Some url \<and> url \<noteq> [] \<longrightarrow>
            push P = Pushed (select_top_articles env (returned P) 5)
                       (wecom_post env
                          (render (select_top_articles env (returned P) 5) page_url
                             (length (returned P))))"
    using c assms(2) by (auto simp: send_to_wecom_def Let_def)
  have l: "length (select_top_articles env (returned P) 5) \<le> 5"
    by (simp add: select_top_articles_def)
  have t: "set (select_top_articles env (returned P) 5) \<subseteq> set (returned P)"
    using set_take_subset[of 5 "sort_key (top_key env) (returned P)"]
    by (simp add: select_top_articles_def)
  note q = fetch_and_process_post[where env = env and post = post and render = render
      and feeds = feeds and now = now and clock = clock and page_url = page_url and days = days
      and since = since and webhook_url = webhook_url and sent_db = "Some db"
      and enable_filter = enable_filter, folded assms(1)]
  from s k o r p l t q show ?thesis by blast
qed

text \<open>
  A pass over a feed of six fresh articles, with a webhook whose \<^verbatim>\<open>POST\<close> raises: the push is
  built from five articles and fails, and all six are saved as sent, each with its title,
  its link and the time of its marking.  A load one day later keeps all six records, and
  the six articles are then filtered out as already sent.
\<close>

theorem pass_marks_all_output_sent_witness:
  "length (returned ex_pass) = 6
   \<and> push ex_pass = Pushed (select_top_articles ex_env (returned ex_pass) 5) PostRaises
   \<and> length (select_top_articles ex_env (returned ex_pass) 5) = 5
   \<and> saved_db ex_pass = Some ex_saved
   \<and> map_option (map fst) (saved_db ex_pass)
       = Some (map (\<lambda>a. ascii ''md5:'' @ link a) (returned ex_pass))
   \<and> map_of ex_saved (ascii ''md5:https://blog.example/a'') =
       Some \<lparr> rec_title = ascii ''a'', rec_link = ascii ''https://blog.example/a'',
              sent_at = Some (ascii ''2024-01-06T00:00:00+00:00'') \<rparr>
   \<and> map (\<lambda>kv. sent_at (snd kv)) ex_saved =
       [Some (ascii ''2024-01-06T00:00:00+00:00''),
        Some (ascii ''2024-01-06T00:00:00.000001+00:00''),
        Some (ascii ''2024-01-06T00:00:00.000002+00:00''),
        Some (ascii ''2024-01-06T00:00:00.000003+00:00''),
        Some (ascii ''2024-01-06T00:00:00.000004+00:00''),
        Some (ascii ''2024-01-06T00:00:00.000005+00:00'')]
   \<and> load_sent_db (1704499200000000 + timedelta_days 1) (FileData ex_saved) = ex_saved
   \<and> filter_new_articles (md5_hexdigest ex_env) (returned ex_pass)
        (load_sent_db (1704499200000000 + timedelta_days 1) (FileData ex_saved)) = []"
proof -
  let ?md5 = "md5_hexdigest ex_env"
  have n: "length (returned ex_pass) = 6" by code_simp
  then have ne: "returned ex_pass \<noteq> []" by auto
  note w = pass_marks_all_output_sent[OF ex_pass_def ne]
  have s: "saved_db ex_pass = Some ex_saved"
    using w unfolding ex_saved_def by blast
  have "push ex_pass = Pushed (select_top_articles ex_env (returned ex_pass) 5)
          (wecom_post ex_env
             (ex_render (select_top_articles ex_env (returned ex_pass) 5)
                (ascii ''https://pages.example/2024-01-06.html'') (length (returned ex_pass))))"
    using w by (simp add: ascii_def)
  then have p: "push ex_pass = Pushed (select_top_articles ex_env (returned ex_pass) 5) PostRaises"
    by (simp add: ex_env_def)
  have l: "length (select_top_articles ex_env (returned ex_pass) 5) = 5"
    using n by (simp add: select_top_articles_def)
  have f: "map_option (map fst) (Some ex_saved)
       = Some (map (\<lambda>a. ascii ''md5:'' @ link a) (returned ex_pass))"
    by code_simp
  have d: "distinct (map (article_id ?md5) (returned ex_pass))" by code_simp
  have u: "\<forall>j. 0 < j \<and> j < length (returned ex_pass) \<longrightarrow>
             article_id ?md5 (returned ex_pass ! j) \<noteq> article_id ?md5 (returned ex_pass ! 0)"
  proof (intro allI impI)
    fix j assume j: "0 < j \<and> j < length (returned ex_pass)"
    let ?ids = "map (article_id ?md5) (returned ex_pass)"
    from j have jl: "j < length ?ids" and zl: "0 < length ?ids" by auto
    have a: "?ids ! j = article_id ?md5 (returned ex_pass ! j)"
      using j by (intro nth_map) simp
    have b: "?ids ! 0 = article_id ?md5 (returned ex_pass ! 0)"
      using j by (intro nth_map) auto
    have "(?ids ! j = ?ids ! 0) = (j = 0)"
      using d jl zl by (rule nth_eq_iff_index_eq)
    with j have "?ids ! j \<noteq> ?ids ! 0" by blast
    then show "article_id ?md5 (returned ex_pass ! j) \<noteq> article_id ?md5 (returned ex_pass ! 0)"
      unfolding a b .
  qed
  have z: "0 < length (returned ex_pass)" using n by simp
  from w s have "\<forall>i<length (returned ex_pass).
        (\<forall>j. i < j \<and> j < length (returned ex_pass) \<longrightarrow>
             article_id ?md5 (returned ex_pass ! j) \<noteq> article_id ?md5 (returned ex_pass ! i))
        \<longrightarrow> map_of ex_saved (article_id ?md5 (returned ex_pass ! i)) =
              Some \<lparr> rec_title = title (returned ex_pass ! i), rec_link = link (returned ex_pass ! i),
                     sent_at = Some (isoformat (ex_clock i)) \<rparr>"
    by auto
  with z u have m0: "map_of ex_saved (article_id ?md5 (returned ex_pass ! 0)) =
      Some \<lparr> rec_title = title (returned ex_pass ! 0), rec_link = link (returned ex_pass ! 0),
             sent_at = Some (isoformat (ex_clock 0)) \<rparr>"
    by blast
  have e1: "article_id ?md5 (returned ex_pass ! 0) = ascii ''md5:https://blog.example/a''"
    by code_simp
  have e2: "\<lparr> rec_title = title (returned ex_pass ! 0), rec_link = link (returned ex_pass ! 0),
             sent_at = Some (isoformat (ex_clock 0)) \<rparr> =
       \<lparr> rec_title = ascii ''a'', rec_link = ascii ''https://blog.example/a'',
         sent_at = Some (ascii ''2024-01-06T00:00:00+00:00'') \<rparr>"
    by code_simp
  have m: "map_of ex_saved (ascii ''md5:https://blog.example/a'') =
       Some \<lparr> rec_title = ascii ''a'', rec_link = ascii ''https://blog.example/a'',
              sent_at = Some (ascii ''2024-01-06T00:00:00+00:00'') \<rparr>"
    using m0 by (simp only: e1 e2)
  have t: "map (\<lambda>kv. sent_at (snd kv)) ex_saved =
       [Some (ascii ''2024-01-06T00:00:00+00:00''),
        Some (ascii ''2024-01-06T00:00:00.000001+00:00''),
        Some (ascii ''2024-01-06T00:00:00.000002+00:00''),
        Some (ascii ''2024-01-06T00:00:00.000003+00:00''),
        Some (ascii ''2024-01-06T00:00:00.000004+00:00''),
        Some (ascii ''2024-01-06T00:00:00.000005+00:00'')]"
    by code_simp
  have ld: "load_sent_db (1704499200000000 + timedelta_days 1) (FileData ex_saved) = ex_saved"
    by code_simp
  have fl: "filter_new_articles ?md5 (returned ex_pass)
        (load_sent_db (1704499200000000 + timedelta_days 1) (FileData ex_saved)) = []"
    using w s unfolding ld by auto
  from n p l s f m t ld fl show ?thesis by (simp only: simp_thms)
qed

end
